theory Spec2Isabelle
  imports Complex_Main "HOL-Library.Word" "HOL-Library.Multiset"
begin

unbundle bit_operations_syntax

section \<open>Errors and panics\<close>

text \<open>
  The package reports failures in two ways. Functions with an \<^verbatim>\<open>error\<close> result return
  a value built by \<^verbatim>\<open>errors.New\<close>, by package \<^verbatim>\<open>strconv\<close> (a \<^verbatim>\<open>*NumError\<close>) or by
  package \<^verbatim>\<open>encoding/hex\<close>. An index outside a slice is a run-time panic that unwinds
  through every caller, whatever the caller's result type. Both are branches of the
  model: a function that can fail or panic returns \<open>error + 'a\<close>. Where Go returns a
  value next to a non-nil error, only the error is kept; the two functions that normalize
  percent values are the exception, they return both results of the Go function.
\<close>

datatype error =
    Panic_IndexOutOfRange
  | Panic_SliceBoundsOutOfRange
  | ErrorsNew string
  | NumError string string
  | InvalidByteError char
  | ErrLength

text \<open>Indexing a slice, \<^verbatim>\<open>xs[i]\<close>, and slicing, \<^verbatim>\<open>xs[a:b]\<close>: the run time checks the bounds.\<close>

definition index :: "'a list \<Rightarrow> nat \<Rightarrow> error + 'a" where
  "index xs i = (if i < length xs then Inr (xs ! i) else Inl Panic_IndexOutOfRange)"

definition slice :: "'a list \<Rightarrow> nat \<Rightarrow> nat \<Rightarrow> error + 'a list" where
  "slice xs a b =
     (if a \<le> b \<and> b \<le> length xs then Inr (take (b - a) (drop a xs))
      else Inl Panic_SliceBoundsOutOfRange)"

section \<open>Strings\<close>

text \<open>
  A Go string is a sequence of bytes, here a \<open>char list\<close>; read as text it is UTF-8.
  \<open>lower\<close> is the lower-case letter of an ASCII byte.
\<close>

definition lower :: "char \<Rightarrow> char" where
  "lower c =
     (if 65 \<le> (of_char c :: nat) \<and> (of_char c :: nat) \<le> 90
      then char_of ((of_char c :: nat) + 32) else c)"

text \<open>
  Package \<^verbatim>\<open>unicode/utf8\<close>. A rune is an \<^verbatim>\<open>int32\<close>, here an \<open>int\<close>.
  \<^verbatim>\<open>DecodeRuneInString\<close> gives the first rune of a text and its width in bytes; a byte
  that does not start a well-formed encoding is \<^verbatim>\<open>RuneError\<close> of width 1.
  \<^verbatim>\<open>EncodeRune\<close> writes a rune, and \<^verbatim>\<open>RuneError\<close> for a value that is no rune.
\<close>

definition RuneError :: int where
  "RuneError = 0xFFFD"

fun DecodeRuneInString :: "string \<Rightarrow> int \<times> nat" where
  "DecodeRuneInString [] = (RuneError, 0)"
| "DecodeRuneInString (c # cs) =
     (let s0 = (of_char c :: int) in
      if s0 < 0x80 then (s0, 1)
      else if s0 < 0xC2 \<or> 0xF4 < s0 then (RuneError, 1)
      else
        let sz = (if s0 < 0xE0 then 2 else if s0 < 0xF0 then 3 else 4 :: nat);
            lo = (if s0 = 0xE0 then 0xA0 else if s0 = 0xF0 then 0x90 else 0x80 :: int);
            hi = (if s0 = 0xED then 0x9F else if s0 = 0xF4 then 0x8F else 0xBF :: int);
            s1 = (of_char (cs ! 0) :: int);
            s2 = (of_char (cs ! 1) :: int);
            s3 = (of_char (cs ! 2) :: int)
        in if length (c # cs) < sz then (RuneError, 1)
           else if s1 < lo \<or> hi < s1 then (RuneError, 1)
           else if sz \<le> 2 then (push_bit 6 (s0 AND 0x1F) OR (s1 AND 0x3F), 2)
           else if s2 < 0x80 \<or> 0xBF < s2 then (RuneError, 1)
           else if sz \<le> 3 then
             (push_bit 12 (s0 AND 0x0F) OR push_bit 6 (s1 AND 0x3F) OR (s2 AND 0x3F), 3)
           else if s3 < 0x80 \<or> 0xBF < s3 then (RuneError, 1)
           else (push_bit 18 (s0 AND 0x07) OR push_bit 12 (s1 AND 0x3F) OR
                 push_bit 6 (s2 AND 0x3F) OR (s3 AND 0x3F), 4))"

definition EncodeRune :: "int \<Rightarrow> string" where
  "EncodeRune r0 =
     (let r = (if r0 < 0 \<or> 0x10FFFF < r0 \<or> (0xD800 \<le> r0 \<and> r0 \<le> 0xDFFF) then RuneError
               else r0)
      in if r \<le> 0x7F then [char_of r]
         else if r \<le> 0x7FF then
           [char_of (0xC0 OR drop_bit 6 r), char_of (0x80 OR (r AND 0x3F))]
         else if r \<le> 0xFFFF then
           [char_of (0xE0 OR drop_bit 12 r), char_of (0x80 OR (drop_bit 6 r AND 0x3F)),
            char_of (0x80 OR (r AND 0x3F))]
         else
           [char_of (0xF0 OR drop_bit 18 r), char_of (0x80 OR (drop_bit 12 r AND 0x3F)),
            char_of (0x80 OR (drop_bit 6 r AND 0x3F)), char_of (0x80 OR (r AND 0x3F))])"

text \<open>
  \<^verbatim>\<open>unicode.ToLower\<close>. Beyond ASCII the lower-case letter of a rune is its simple
  lower-case mapping in the Unicode Character Database, which package \<^verbatim>\<open>unicode\<close> holds in
  \<^verbatim>\<open>CaseRanges\<close>. The table below is that mapping for Unicode 14.0: an entry
  \<open>(lo, hi, step, delta)\<close> moves every \<open>step\<close>-th rune from \<open>lo\<close> to \<open>hi\<close> by
  \<open>delta\<close>, and a rune of no entry is left as it is.
\<close>

definition lower_ranges :: "(int \<times> int \<times> int \<times> int) list" where
  "lower_ranges =
    [(0x00C0, 0x00D6, 1, 32), (0x00D8, 0x00DE, 1, 32), (0x0100, 0x012E, 2, 1),
     (0x0130, 0x0130, 1, - 199), (0x0132, 0x0136, 2, 1), (0x0139, 0x0147, 2, 1),
     (0x014A, 0x0176, 2, 1), (0x0178, 0x0178, 1, - 121), (0x0179, 0x017D, 2, 1),
     (0x0181, 0x0181, 1, 210), (0x0182, 0x0184, 2, 1), (0x0186, 0x0186, 1, 206),
     (0x0187, 0x0187, 1, 1), (0x0189, 0x018A, 1, 205), (0x018B, 0x018B, 1, 1),
     (0x018E, 0x018E, 1, 79), (0x018F, 0x018F, 1, 202), (0x0190, 0x0190, 1, 203),
     (0x0191, 0x0191, 1, 1), (0x0193, 0x0193, 1, 205), (0x0194, 0x0194, 1, 207),
     (0x0196, 0x0196, 1, 211), (0x0197, 0x0197, 1, 209), (0x0198, 0x0198, 1, 1),
     (0x019C, 0x019C, 1, 211), (0x019D, 0x019D, 1, 213), (0x019F, 0x019F, 1, 214),
     (0x01A0, 0x01A4, 2, 1), (0x01A6, 0x01A6, 1, 218), (0x01A7, 0x01A7, 1, 1),
     (0x01A9, 0x01A9, 1, 218), (0x01AC, 0x01AC, 1, 1), (0x01AE, 0x01AE, 1, 218),
     (0x01AF, 0x01AF, 1, 1), (0x01B1, 0x01B2, 1, 217), (0x01B3, 0x01B5, 2, 1),
     (0x01B7, 0x01B7, 1, 219), (0x01B8, 0x01B8, 1, 1), (0x01BC, 0x01BC, 1, 1),
     (0x01C4, 0x01C4, 1, 2), (0x01C5, 0x01C5, 1, 1), (0x01C7, 0x01C7, 1, 2),
     (0x01C8, 0x01C8, 1, 1), (0x01CA, 0x01CA, 1, 2), (0x01CB, 0x01DB, 2, 1),
     (0x01DE, 0x01EE, 2, 1), (0x01F1, 0x01F1, 1, 2), (0x01F2, 0x01F4, 2, 1),
     (0x01F6, 0x01F6, 1, - 97), (0x01F7, 0x01F7, 1, - 56), (0x01F8, 0x021E, 2, 1),
     (0x0220, 0x0220, 1, - 130), (0x0222, 0x0232, 2, 1), (0x023A, 0x023A, 1, 10795),
     (0x023B, 0x023B, 1, 1), (0x023D, 0x023D, 1, - 163), (0x023E, 0x023E, 1, 10792),
     (0x0241, 0x0241, 1, 1), (0x0243, 0x0243, 1, - 195), (0x0244, 0x0244, 1, 69),
     (0x0245, 0x0245, 1, 71), (0x0246, 0x024E, 2, 1), (0x0370, 0x0372, 2, 1),
     (0x0376, 0x0376, 1, 1), (0x037F, 0x037F, 1, 116), (0x0386, 0x0386, 1, 38),
     (0x0388, 0x038A, 1, 37), (0x038C, 0x038C, 1, 64), (0x038E, 0x038F, 1, 63),
     (0x0391, 0x03A1, 1, 32), (0x03A3, 0x03AB, 1, 32), (0x03CF, 0x03CF, 1, 8),
     (0x03D8, 0x03EE, 2, 1), (0x03F4, 0x03F4, 1, - 60), (0x03F7, 0x03F7, 1, 1),
     (0x03F9, 0x03F9, 1, - 7), (0x03FA, 0x03FA, 1, 1), (0x03FD, 0x03FF, 1, - 130),
     (0x0400, 0x040F, 1, 80), (0x0410, 0x042F, 1, 32), (0x0460, 0x0480, 2, 1),
     (0x048A, 0x04BE, 2, 1), (0x04C0, 0x04C0, 1, 15), (0x04C1, 0x04CD, 2, 1),
     (0x04D0, 0x052E, 2, 1), (0x0531, 0x0556, 1, 48), (0x10A0, 0x10C5, 1, 7264),
     (0x10C7, 0x10C7, 1, 7264), (0x10CD, 0x10CD, 1, 7264), (0x13A0, 0x13EF, 1, 38864),
     (0x13F0, 0x13F5, 1, 8), (0x1C90, 0x1CBA, 1, - 3008), (0x1CBD, 0x1CBF, 1, - 3008),
     (0x1E00, 0x1E94, 2, 1), (0x1E9E, 0x1E9E, 1, - 7615), (0x1EA0, 0x1EFE, 2, 1),
     (0x1F08, 0x1F0F, 1, - 8), (0x1F18, 0x1F1D, 1, - 8), (0x1F28, 0x1F2F, 1, - 8),
     (0x1F38, 0x1F3F, 1, - 8), (0x1F48, 0x1F4D, 1, - 8), (0x1F59, 0x1F5F, 2, - 8),
     (0x1F68, 0x1F6F, 1, - 8), (0x1F88, 0x1F8F, 1, - 8), (0x1F98, 0x1F9F, 1, - 8),
     (0x1FA8, 0x1FAF, 1, - 8), (0x1FB8, 0x1FB9, 1, - 8), (0x1FBA, 0x1FBB, 1, - 74),
     (0x1FBC, 0x1FBC, 1, - 9), (0x1FC8, 0x1FCB, 1, - 86), (0x1FCC, 0x1FCC, 1, - 9),
     (0x1FD8, 0x1FD9, 1, - 8), (0x1FDA, 0x1FDB, 1, - 100), (0x1FE8, 0x1FE9, 1, - 8),
     (0x1FEA, 0x1FEB, 1, - 112), (0x1FEC, 0x1FEC, 1, - 7), (0x1FF8, 0x1FF9, 1, - 128),
     (0x1FFA, 0x1FFB, 1, - 126), (0x1FFC, 0x1FFC, 1, - 9), (0x2126, 0x2126, 1, - 7517),
     (0x212A, 0x212A, 1, - 8383), (0x212B, 0x212B, 1, - 8262), (0x2132, 0x2132, 1, 28),
     (0x2160, 0x216F, 1, 16), (0x2183, 0x2183, 1, 1), (0x24B6, 0x24CF, 1, 26),
     (0x2C00, 0x2C2F, 1, 48), (0x2C60, 0x2C60, 1, 1), (0x2C62, 0x2C62, 1, - 10743),
     (0x2C63, 0x2C63, 1, - 3814), (0x2C64, 0x2C64, 1, - 10727), (0x2C67, 0x2C6B, 2, 1),
     (0x2C6D, 0x2C6D, 1, - 10780), (0x2C6E, 0x2C6E, 1, - 10749), (0x2C6F, 0x2C6F, 1, - 10783),
     (0x2C70, 0x2C70, 1, - 10782), (0x2C72, 0x2C72, 1, 1), (0x2C75, 0x2C75, 1, 1),
     (0x2C7E, 0x2C7F, 1, - 10815), (0x2C80, 0x2CE2, 2, 1), (0x2CEB, 0x2CED, 2, 1),
     (0x2CF2, 0x2CF2, 1, 1), (0xA640, 0xA66C, 2, 1), (0xA680, 0xA69A, 2, 1),
     (0xA722, 0xA72E, 2, 1), (0xA732, 0xA76E, 2, 1), (0xA779, 0xA77B, 2, 1),
     (0xA77D, 0xA77D, 1, - 35332), (0xA77E, 0xA786, 2, 1), (0xA78B, 0xA78B, 1, 1),
     (0xA78D, 0xA78D, 1, - 42280), (0xA790, 0xA792, 2, 1), (0xA796, 0xA7A8, 2, 1),
     (0xA7AA, 0xA7AA, 1, - 42308), (0xA7AB, 0xA7AB, 1, - 42319), (0xA7AC, 0xA7AC, 1, - 42315),
     (0xA7AD, 0xA7AD, 1, - 42305), (0xA7AE, 0xA7AE, 1, - 42308), (0xA7B0, 0xA7B0, 1, - 42258),
     (0xA7B1, 0xA7B1, 1, - 42282), (0xA7B2, 0xA7B2, 1, - 42261), (0xA7B3, 0xA7B3, 1, 928),
     (0xA7B4, 0xA7C2, 2, 1), (0xA7C4, 0xA7C4, 1, - 48), (0xA7C5, 0xA7C5, 1, - 42307),
     (0xA7C6, 0xA7C6, 1, - 35384), (0xA7C7, 0xA7C9, 2, 1), (0xA7D0, 0xA7D0, 1, 1),
     (0xA7D6, 0xA7D8, 2, 1), (0xA7F5, 0xA7F5, 1, 1), (0xFF21, 0xFF3A, 1, 32),
     (0x10400, 0x10427, 1, 40), (0x104B0, 0x104D3, 1, 40), (0x10570, 0x1057A, 1, 39),
     (0x1057C, 0x1058A, 1, 39), (0x1058C, 0x10592, 1, 39), (0x10594, 0x10595, 1, 39),
     (0x10C80, 0x10CB2, 1, 64), (0x118A0, 0x118BF, 1, 32), (0x16E40, 0x16E5F, 1, 32),
     (0x1E900, 0x1E921, 1, 34)]"

definition unicode_ToLower :: "int \<Rightarrow> int" where
  "unicode_ToLower r =
     (if r \<le> 0x7F then (if 65 \<le> r \<and> r \<le> 90 then r + 32 else r)
      else
        (case find (\<lambda>(lo, hi, step, delta). lo \<le> r \<and> r \<le> hi \<and> (r - lo) mod step = 0)
                lower_ranges of
           None \<Rightarrow> r
         | Some (lo, hi, step, delta) \<Rightarrow> r + delta))"

text \<open>
  \<^verbatim>\<open>strings.Map\<close> decodes the text rune by rune and writes the image of each rune; a
  negative image drops the rune. \<^verbatim>\<open>strings.ToLower\<close> lowers the letters \<open>A\<close>..\<open>Z\<close> of
  a text of ASCII bytes, and is \<^verbatim>\<open>Map(unicode.ToLower, s)\<close> on any other text.
\<close>

fun strings_Map :: "(int \<Rightarrow> int) \<Rightarrow> string \<Rightarrow> string" where
  "strings_Map mapping [] = []"
| "strings_Map mapping (c # cs) =
     (case DecodeRuneInString (c # cs) of
        (r, width) \<Rightarrow>
          (if 0 \<le> mapping r then EncodeRune (mapping r) else []) @
          strings_Map mapping (drop (width - 1) cs))"

definition ToLower :: "string \<Rightarrow> string" where
  "ToLower s =
     (if list_all (\<lambda>c. (of_char c :: nat) < 128) s then map lower s
      else strings_Map unicode_ToLower s)"

definition Repeat :: "string \<Rightarrow> nat \<Rightarrow> string" where
  "Repeat s n = concat (replicate n s)"

text \<open>\<^verbatim>\<open>strings.Join(xs, "")\<close>, the only separator the package uses.\<close>

definition Join :: "string list \<Rightarrow> string" where
  "Join xs = concat xs"

section \<open>Specification identifiers\<close>

definition HTML4 :: string where "HTML4 = ''html4''"
definition CSS2 :: string where "CSS2 = ''css2''"
definition CSS21 :: string where "CSS21 = ''css21''"
definition CSS3 :: string where "CSS3 = ''css3''"

definition SupportedSpecifications :: "string list" where
  "SupportedSpecifications = [HTML4, CSS2, CSS21, CSS3]"

fun contains :: "string list \<Rightarrow> string \<Rightarrow> bool" where
  "contains [] e = False"
| "contains (output # s) e = (if output = e then True else contains s e)"

section \<open>The hex pattern\<close>

text \<open>
  \<^verbatim>\<open>HexColorRegex\<close> is \<^verbatim>\<open>^#([a-fA-F0-9]{3}|[a-fA-F0-9]{6})$\<close>. Both ends are anchored
  (in Go's syntax \<^verbatim>\<open>$\<close> without the \<^verbatim>\<open>m\<close> flag is the end of the text), so a text
  matches when it is \<^verbatim>\<open>#\<close> followed by three or by six characters of the class.
  \<^verbatim>\<open>FindStringSubmatch\<close> returns the whole match and the group, or \<^verbatim>\<open>nil\<close> (the empty
  slice) when the text does not match.
\<close>

definition hex_class :: "char \<Rightarrow> bool" where
  "hex_class c =
     (let n = (of_char c :: nat)
      in (97 \<le> n \<and> n \<le> 102) \<or> (65 \<le> n \<and> n \<le> 70) \<or> (48 \<le> n \<and> n \<le> 57))"

definition HexColorRegex_match :: "string \<Rightarrow> bool" where
  "HexColorRegex_match s =
     (case s of
        [] \<Rightarrow> False
      | c # ds \<Rightarrow> c = CHR ''#'' \<and> (length ds = 3 \<or> length ds = 6) \<and> list_all hex_class ds)"

definition FindStringSubmatch :: "string \<Rightarrow> string list" where
  "FindStringSubmatch s = (if HexColorRegex_match s then [s, tl s] else [])"

section \<open>Normalization of hex values and integer triplets\<close>

text \<open>
  \<^verbatim>\<open>NormalizeHex\<close> indexes the result of \<^verbatim>\<open>FindStringSubmatch\<close> at 1 without looking
  at it first. Its Go result type is \<^verbatim>\<open>string\<close>; the \<open>Inl\<close> branch is the panic.
\<close>

definition NormalizeHex :: "string \<Rightarrow> error + string" where
  "NormalizeHex HexValue =
     (case index (FindStringSubmatch HexValue) 1 of
        Inl e \<Rightarrow> Inl e
      | Inr hexDigits \<Rightarrow>
          if length hexDigits = 3
          then Inr (''#'' @ ToLower (Join (map (\<lambda>c. Repeat [c] 2) hexDigits)))
          else Inr (''#'' @ ToLower hexDigits))"

text \<open>
  Go's \<^verbatim>\<open>int\<close> values are only compared here, never added or multiplied, so they are
  modelled by \<open>int\<close>.
\<close>

definition normalizeIntegerRGB :: "int \<Rightarrow> int" where
  "normalizeIntegerRGB v =
     (if v \<ge> 0 \<and> v \<le> 255 then v
      else if v < 0 then 0
      else if v > 255 then 255
      else 0)"

text \<open>
  \<^verbatim>\<open>NormalizeIntegerTriplet\<close> reads \<^verbatim>\<open>RGBTriplet[0]\<close>, \<^verbatim>\<open>[1]\<close> and \<^verbatim>\<open>[2]\<close> and builds a
  new slice of exactly three elements.
\<close>

definition NormalizeIntegerTriplet :: "int list \<Rightarrow> error + int list" where
  "NormalizeIntegerTriplet RGBTriplet =
     (case index RGBTriplet 0 of Inl e \<Rightarrow> Inl e | Inr r \<Rightarrow>
     (case index RGBTriplet 1 of Inl e \<Rightarrow> Inl e | Inr g \<Rightarrow>
     (case index RGBTriplet 2 of Inl e \<Rightarrow> Inl e | Inr b \<Rightarrow>
        Inr [normalizeIntegerRGB r, normalizeIntegerRGB g, normalizeIntegerRGB b])))"

section \<open>Package encoding/hex and the byte helpers\<close>

type_synonym byte = "8 word"

definition hextable :: string where
  "hextable = ''0123456789abcdef''"

definition EncodeToString :: "byte list \<Rightarrow> string" where
  "EncodeToString src =
     concat (map (\<lambda>v. [hextable ! unat (drop_bit 4 v), hextable ! unat (v AND 0x0f)]) src)"

definition fromHexChar :: "char \<Rightarrow> byte option" where
  "fromHexChar c =
     (let n = (of_char c :: nat) in
      if 48 \<le> n \<and> n \<le> 57 then Some (of_nat (n - 48))
      else if 97 \<le> n \<and> n \<le> 102 then Some (of_nat (n - 97 + 10))
      else if 65 \<le> n \<and> n \<le> 70 then Some (of_nat (n - 65 + 10))
      else None)"

text \<open>
  \<^verbatim>\<open>hex.DecodeString\<close>: two characters a byte; the first character that is no hex digit
  is reported, and an odd length after that.
\<close>

fun DecodeString :: "string \<Rightarrow> error + byte list" where
  "DecodeString [] = Inr []"
| "DecodeString [p] =
     (case fromHexChar p of None \<Rightarrow> Inl (InvalidByteError p) | Some a \<Rightarrow> Inl ErrLength)"
| "DecodeString (p # q # src) =
     (case fromHexChar p of None \<Rightarrow> Inl (InvalidByteError p) | Some a \<Rightarrow>
     (case fromHexChar q of None \<Rightarrow> Inl (InvalidByteError q) | Some b \<Rightarrow>
     (case DecodeString src of Inl e \<Rightarrow> Inl e | Inr dst \<Rightarrow>
        Inr ((push_bit 4 a OR b) # dst))))"

text \<open>
  \<^verbatim>\<open>ByteToInt\<close> ORs the bytes into a \<^verbatim>\<open>uint32\<close>, the first byte highest. A shift by 32
  or more gives 0, in Go as for \<open>push_bit\<close> on \<open>32 word\<close>.
\<close>

fun ByteToInt_loop :: "nat \<Rightarrow> nat \<Rightarrow> byte list \<Rightarrow> 32 word \<Rightarrow> 32 word" where
  "ByteToInt_loop l i [] output = output"
| "ByteToInt_loop l i (b # bs) output =
     (let shift = unat (word_of_int ((int l - int i - 1) * 8) :: 32 word)
      in ByteToInt_loop l (Suc i) bs (output OR push_bit shift (ucast b)))"

definition ByteToInt :: "byte list \<Rightarrow> int" where
  "ByteToInt input = uint (ByteToInt_loop (length input) 0 input 0)"

text \<open>\<^verbatim>\<open>binary.BigEndian.PutUint16\<close> into a fresh slice of two bytes.\<close>

definition PutUint16 :: "16 word \<Rightarrow> byte list" where
  "PutUint16 v = [ucast (drop_bit 8 v), ucast v]"

section \<open>Hex values and integer triplets\<close>

definition HexToRGB :: "string \<Rightarrow> error + int list" where
  "HexToRGB hexValue =
     (case NormalizeHex hexValue of Inl e \<Rightarrow> Inl e | Inr hexDigits \<Rightarrow>
     (case slice hexDigits 1 3 of Inl e \<Rightarrow> Inl e | Inr s1 \<Rightarrow>
     (case DecodeString s1 of Inl e \<Rightarrow> Inl e | Inr partialHex1 \<Rightarrow>
     (case slice hexDigits 3 5 of Inl e \<Rightarrow> Inl e | Inr s2 \<Rightarrow>
     (case DecodeString s2 of Inl e \<Rightarrow> Inl e | Inr partialHex2 \<Rightarrow>
     (case slice hexDigits 5 7 of Inl e \<Rightarrow> Inl e | Inr s3 \<Rightarrow>
     (case DecodeString s3 of Inl e \<Rightarrow> Inl e | Inr partialHex3 \<Rightarrow>
        Inr [ByteToInt partialHex1, ByteToInt partialHex2, ByteToInt partialHex3])))))))"

text \<open>
  \<^verbatim>\<open>RGBToHex\<close> appends, for each component of the normalized triplet, the hex text of
  the low byte of its \<^verbatim>\<open>uint16\<close> value: \<^verbatim>\<open>byteCoded[1:2]\<close> of a slice of two bytes.
\<close>

definition RGBToHex :: "int list \<Rightarrow> error + string" where
  "RGBToHex rgbTriplet =
     (case NormalizeIntegerTriplet rgbTriplet of
        Inl e \<Rightarrow> Inl e
      | Inr integerTriplet \<Rightarrow>
          Inr (foldl
                (\<lambda>hexString v.
                   hexString @ EncodeToString (take 1 (drop 1 (PutUint16 (word_of_int v)))))
                ''#'' integerTriplet))"

section \<open>The color tables\<close>

text \<open>
  A map literal is written as the list of its entries, in the order of the source; the
  keys of each literal are distinct, and the map is \<open>map_of\<close> of the list.
\<close>

definition HTML4_literal :: "(string \<times> string) list" where
  "HTML4_literal =
    [(''aqua'', ''#00ffff''), (''black'', ''#000000''), (''blue'', ''#0000ff''),
     (''fuchsia'', ''#ff00ff''), (''green'', ''#008000''), (''gray'', ''#808080''),
     (''grey'', ''#808080''), (''lime'', ''#00ff00''), (''maroon'', ''#800000''),
     (''navy'', ''#000080''), (''olive'', ''#808000''), (''purple'', ''#800080''),
     (''red'', ''#ff0000''), (''silver'', ''#c0c0c0''), (''teal'', ''#008080''),
     (''white'', ''#ffffff''), (''yellow'', ''#ffff00'')]"

definition CSS3_literal :: "(string \<times> string) list" where
  "CSS3_literal =
    [(''aliceblue'', ''#f0f8ff''), (''antiquewhite'', ''#faebd7''), (''aqua'', ''#00ffff''),
     (''aquamarine'', ''#7fffd4''), (''azure'', ''#f0ffff''), (''beige'', ''#f5f5dc''),
     (''bisque'', ''#ffe4c4''), (''black'', ''#000000''), (''blanchedalmond'', ''#ffebcd''),
     (''blue'', ''#0000ff''), (''blueviolet'', ''#8a2be2''), (''brown'', ''#a52a2a''),
     (''burlywood'', ''#deb887''), (''cadetblue'', ''#5f9ea0''), (''chartreuse'', ''#7fff00''),
     (''chocolate'', ''#d2691e''), (''coral'', ''#ff7f50''), (''cornflowerblue'', ''#6495ed''),
     (''cornsilk'', ''#fff8dc''), (''crimson'', ''#dc143c''), (''cyan'', ''#00ffff''),
     (''darkblue'', ''#00008b''), (''darkcyan'', ''#008b8b''),
     (''darkgoldenrod'', ''#b8860b''), (''darkgray'', ''#a9a9a9''),
     (''darkgrey'', ''#a9a9a9''), (''darkgreen'', ''#006400''), (''darkkhaki'', ''#bdb76b''),
     (''darkmagenta'', ''#8b008b''), (''darkolivegreen'', ''#556b2f''),
     (''darkorange'', ''#ff8c00''), (''darkorchid'', ''#9932cc''), (''darkred'', ''#8b0000''),
     (''darksalmon'', ''#e9967a''), (''darkseagreen'', ''#8fbc8f''),
     (''darkslateblue'', ''#483d8b''), (''darkslategray'', ''#2f4f4f''),
     (''darkslategrey'', ''#2f4f4f''), (''darkturquoise'', ''#00ced1''),
     (''darkviolet'', ''#9400d3''), (''deeppink'', ''#ff1493''),
     (''deepskyblue'', ''#00bfff''), (''dimgray'', ''#696969''), (''dimgrey'', ''#696969''),
     (''dodgerblue'', ''#1e90ff''), (''firebrick'', ''#b22222''),
     (''floralwhite'', ''#fffaf0''), (''forestgreen'', ''#228b22''),
     (''fuchsia'', ''#ff00ff''), (''gainsboro'', ''#dcdcdc''), (''ghostwhite'', ''#f8f8ff''),
     (''gold'', ''#ffd700''), (''goldenrod'', ''#daa520''), (''gray'', ''#808080''),
     (''grey'', ''#808080''), (''green'', ''#008000''), (''greenyellow'', ''#adff2f''),
     (''honeydew'', ''#f0fff0''), (''hotpink'', ''#ff69b4''), (''indianred'', ''#cd5c5c''),
     (''indigo'', ''#4b0082''), (''ivory'', ''#fffff0''), (''khaki'', ''#f0e68c''),
     (''lavender'', ''#e6e6fa''), (''lavenderblush'', ''#fff0f5''),
     (''lawngreen'', ''#7cfc00''), (''lemonchiffon'', ''#fffacd''),
     (''lightblue'', ''#add8e6''), (''lightcoral'', ''#f08080''), (''lightcyan'', ''#e0ffff''),
     (''lightgoldenrodyellow'', ''#fafad2''), (''lightgray'', ''#d3d3d3''),
     (''lightgrey'', ''#d3d3d3''), (''lightgreen'', ''#90ee90''), (''lightpink'', ''#ffb6c1''),
     (''lightsalmon'', ''#ffa07a''), (''lightseagreen'', ''#20b2aa''),
     (''lightskyblue'', ''#87cefa''), (''lightslategray'', ''#778899''),
     (''lightslategrey'', ''#778899''), (''lightsteelblue'', ''#b0c4de''),
     (''lightyellow'', ''#ffffe0''), (''lime'', ''#00ff00''), (''limegreen'', ''#32cd32''),
     (''linen'', ''#faf0e6''), (''magenta'', ''#ff00ff''), (''maroon'', ''#800000''),
     (''mediumaquamarine'', ''#66cdaa''), (''mediumblue'', ''#0000cd''),
     (''mediumorchid'', ''#ba55d3''), (''mediumpurple'', ''#9370db''),
     (''mediumseagreen'', ''#3cb371''), (''mediumslateblue'', ''#7b68ee''),
     (''mediumspringgreen'', ''#00fa9a''), (''mediumturquoise'', ''#48d1cc''),
     (''mediumvioletred'', ''#c71585''), (''midnightblue'', ''#191970''),
     (''mintcream'', ''#f5fffa''), (''mistyrose'', ''#ffe4e1''), (''moccasin'', ''#ffe4b5''),
     (''navajowhite'', ''#ffdead''), (''navy'', ''#000080''), (''oldlace'', ''#fdf5e6''),
     (''olive'', ''#808000''), (''olivedrab'', ''#6b8e23''), (''orange'', ''#ffa500''),
     (''orangered'', ''#ff4500''), (''orchid'', ''#da70d6''), (''palegoldenrod'', ''#eee8aa''),
     (''palegreen'', ''#98fb98''), (''paleturquoise'', ''#afeeee''),
     (''palevioletred'', ''#db7093''), (''papayawhip'', ''#ffefd5''),
     (''peachpuff'', ''#ffdab9''), (''peru'', ''#cd853f''), (''pink'', ''#ffc0cb''),
     (''plum'', ''#dda0dd''), (''powderblue'', ''#b0e0e6''), (''purple'', ''#800080''),
     (''red'', ''#ff0000''), (''rosybrown'', ''#bc8f8f''), (''royalblue'', ''#4169e1''),
     (''saddlebrown'', ''#8b4513''), (''salmon'', ''#fa8072''), (''sandybrown'', ''#f4a460''),
     (''seagreen'', ''#2e8b57''), (''seashell'', ''#fff5ee''), (''sienna'', ''#a0522d''),
     (''silver'', ''#c0c0c0''), (''skyblue'', ''#87ceeb''), (''slateblue'', ''#6a5acd''),
     (''slategray'', ''#708090''), (''slategrey'', ''#708090''), (''snow'', ''#fffafa''),
     (''springgreen'', ''#00ff7f''), (''steelblue'', ''#4682b4''), (''tan'', ''#d2b48c''),
     (''teal'', ''#008080''), (''thistle'', ''#d8bfd8''), (''tomato'', ''#ff6347''),
     (''turquoise'', ''#40e0d0''), (''violet'', ''#ee82ee''), (''wheat'', ''#f5deb3''),
     (''white'', ''#ffffff''), (''whitesmoke'', ''#f5f5f5''), (''yellow'', ''#ffff00''),
     (''yellowgreen'', ''#9acd32'')]"

text \<open>
  \<^verbatim>\<open>reverseMap\<close> ranges over a map and stores every entry swapped, so a later entry
  with the same value overwrites an earlier one. The order in which \<^verbatim>\<open>range\<close> visits
  a map is not specified by Go and varies from run to run: the model takes the
  entries in the order of the visit.
\<close>

definition reverseMap :: "(string \<times> string) list \<Rightarrow> (string \<rightharpoonup> string)" where
  "reverseMap visit = fold (\<lambda>(k, v) n. n(v \<mapsto> k)) visit Map.empty"

text \<open>A visit of a map literal: its entries, each once, in any order.\<close>

definition range_of :: "(string \<times> string) list \<Rightarrow> (string \<times> string) list \<Rightarrow> bool" where
  "range_of literal visit = (mset visit = mset literal)"

text \<open>
  The package-level variables. Go initializes them, in the order of their
  dependencies, before it runs \<^verbatim>\<open>init()\<close>: at that time \<^verbatim>\<open>CSS21NamesToHex\<close> is the
  empty map made by its declaration. \<^verbatim>\<open>CSS2NamesToHex\<close> and \<^verbatim>\<open>CSS2HexToNames\<close> are
  the html4 maps themselves. \<open>visit4\<close> and \<open>visit3\<close> are the visits of the html4
  and css3 maps inside \<^verbatim>\<open>reverseMap\<close>.
\<close>

record globals =
  HTML4NamesToHex :: "string \<rightharpoonup> string"
  CSS21NamesToHex :: "string \<rightharpoonup> string"
  CSS3NamesToHex :: "string \<rightharpoonup> string"
  HTML4HexToNames :: "string \<rightharpoonup> string"
  CSS21HexToNames :: "string \<rightharpoonup> string"
  CSS3HexToNames :: "string \<rightharpoonup> string"

definition CSS2NamesToHex :: "globals \<Rightarrow> (string \<rightharpoonup> string)" where
  "CSS2NamesToHex g = HTML4NamesToHex g"

definition CSS2HexToNames :: "globals \<Rightarrow> (string \<rightharpoonup> string)" where
  "CSS2HexToNames g = HTML4HexToNames g"

definition package_vars ::
  "(string \<times> string) list \<Rightarrow> (string \<times> string) list \<Rightarrow> globals" where
  "package_vars visit4 visit3 =
     \<lparr> HTML4NamesToHex = map_of HTML4_literal,
       CSS21NamesToHex = Map.empty,
       CSS3NamesToHex = map_of CSS3_literal,
       HTML4HexToNames = reverseMap visit4,
       CSS21HexToNames = reverseMap [],
       CSS3HexToNames = reverseMap visit3 \<rparr>"

text \<open>
  \<^verbatim>\<open>init()\<close> copies the html4 names into \<^verbatim>\<open>CSS21NamesToHex\<close> (the copy does not depend
  on the order of the visit: the keys are distinct), adds orange, and overwrites seven
  entries of \<^verbatim>\<open>CSS3HexToNames\<close>.
\<close>

definition init :: "globals \<Rightarrow> globals" where
  "init g =
     g\<lparr> CSS21NamesToHex := (CSS21NamesToHex g ++ HTML4NamesToHex g)(''orange'' \<mapsto> ''#ffa500''),
        CSS3HexToNames := (CSS3HexToNames g)
          (''#a9a9a9'' \<mapsto> ''darkgray'',
           ''#2f4f4f'' \<mapsto> ''darkslategray'',
           ''#696969'' \<mapsto> ''dimgray'',
           ''#808080'' \<mapsto> ''gray'',
           ''#d3d3d3'' \<mapsto> ''lightgray'',
           ''#778899'' \<mapsto> ''lightslategray'',
           ''#708090'' \<mapsto> ''slategray'') \<rparr>"

definition program_start ::
  "(string \<times> string) list \<Rightarrow> (string \<times> string) list \<Rightarrow> globals" where
  "program_start visit4 visit3 = init (package_vars visit4 visit3)"

section \<open>Names and hex values\<close>

definition NameToHex :: "globals \<Rightarrow> string \<Rightarrow> string \<Rightarrow> error + string" where
  "NameToHex g name spec =
     (if contains SupportedSpecifications spec then
        (let normalized = ToLower name in
         if spec = HTML4 then
           (case HTML4NamesToHex g normalized of
              None \<Rightarrow> Inl (ErrorsNew (name @ ''has no defined color name in '' @ spec))
            | Some hexStr \<Rightarrow> Inr hexStr)
         else if spec = CSS2 then
           (case CSS2NamesToHex g normalized of
              None \<Rightarrow> Inl (ErrorsNew (name @ ''has no defined color name in '' @ spec))
            | Some hexStr \<Rightarrow> Inr hexStr)
         else if spec = CSS21 then
           (case CSS21NamesToHex g normalized of
              None \<Rightarrow> Inl (ErrorsNew (name @ ''has no defined color name in '' @ spec))
            | Some hexStr \<Rightarrow> Inr hexStr)
         else if spec = CSS3 then
           (case CSS3NamesToHex g normalized of
              None \<Rightarrow> Inl (ErrorsNew (name @ ''has no defined color name in '' @ spec))
            | Some hexStr \<Rightarrow> Inr hexStr)
         else Inl (ErrorsNew
                (spec @ ''is not output supported Specification for color name lookups'')))
      else Inl (ErrorsNew
             (spec @ ''is not output supported Specification for color name lookups'')))"

definition HexToName :: "globals \<Rightarrow> string \<Rightarrow> string \<Rightarrow> error + string" where
  "HexToName g hexValue spec =
     (if contains SupportedSpecifications spec then
        (case NormalizeHex hexValue of
           Inl e \<Rightarrow> Inl e
         | Inr normalized \<Rightarrow>
             if spec = HTML4 then
               (case HTML4HexToNames g normalized of
                  None \<Rightarrow> Inl (ErrorsNew (hexValue @ ''has no defined color name in '' @ spec))
                | Some name \<Rightarrow> Inr name)
             else if spec = CSS2 then
               (case CSS2HexToNames g normalized of
                  None \<Rightarrow> Inl (ErrorsNew (hexValue @ ''has no defined color name in '' @ spec))
                | Some name \<Rightarrow> Inr name)
             else if spec = CSS21 then
               (case CSS21HexToNames g normalized of
                  None \<Rightarrow> Inl (ErrorsNew (hexValue @ ''has no defined color name in '' @ spec))
                | Some name \<Rightarrow> Inr name)
             else if spec = CSS3 then
               (case CSS3HexToNames g normalized of
                  None \<Rightarrow> Inl (ErrorsNew (hexValue @ ''has no defined color name in '' @ spec))
                | Some name \<Rightarrow> Inr name)
             else Inl (ErrorsNew
                    (spec @ ''is not output supported Specification for color name lookups'')))
      else Inl (ErrorsNew
             (spec @ ''is not output supported Specification for color Name lookups'')))"

text \<open>
  \<^verbatim>\<open>RGBToName\<close> normalizes the triplet itself and hands it to \<^verbatim>\<open>RGBToHex\<close>, which
  normalizes again.
\<close>

definition RGBToName :: "globals \<Rightarrow> int list \<Rightarrow> string \<Rightarrow> error + string" where
  "RGBToName g rgbTriplet spec =
     (case NormalizeIntegerTriplet rgbTriplet of Inl e \<Rightarrow> Inl e | Inr t \<Rightarrow>
     (case RGBToHex t of Inl e \<Rightarrow> Inl e | Inr h \<Rightarrow> HexToName g h spec))"

section \<open>float64\<close>

text \<open>
  A \<^verbatim>\<open>float64\<close> is an IEEE 754 binary64 value: a finite value with a sign and a
  magnitude (a rational of the binary64 grid; the sign tells the two zeros apart), an
  infinity, or NaN. Every arithmetic operation gives the exact result rounded to the
  nearest value of the grid, ties to the even significand. The grid has 53 significant
  bits and its finest spacing is \<open>2 powi (- 1074)\<close>; a rounded magnitude of
  \<open>2 ^ 1024\<close> or more, that is of binary exponent 1024 or more, overflows to infinity.
\<close>

datatype float64 = Finite bool rat | Inf bool | NaN

text \<open>
  \<open>ndigits b n\<close> is the number of digits of \<open>n\<close> in base \<open>b\<close>, and \<open>ilog b x\<close> the
  integer \<open>e\<close> with \<open>b powi e \<le> x < b powi (e + 1)\<close>, for \<open>0 < x\<close>.
\<close>

function ndigits :: "int \<Rightarrow> int \<Rightarrow> int" where
  "ndigits b n = (if n \<le> 0 \<or> b < 2 then 0 else 1 + ndigits b (n div b))"
  by pat_completeness auto
termination
  by (relation "measure (\<lambda>(b, n). nat n)") (auto intro: int_div_less_self)

declare ndigits.simps [simp del]

definition ilog :: "int \<Rightarrow> rat \<Rightarrow> int" where
  "ilog b x =
     (if 1 \<le> x then ndigits b \<lfloor>x\<rfloor> - 1 else - ndigits b (\<lceil>1 / x\<rceil> - 1))"

definition round_half_even :: "rat \<Rightarrow> int" where
  "round_half_even t =
     (if t - of_int \<lfloor>t\<rfloor> < 1 / 2 then \<lfloor>t\<rfloor>
      else if 1 / 2 < t - of_int \<lfloor>t\<rfloor> then \<lfloor>t\<rfloor> + 1
      else if even \<lfloor>t\<rfloor> then \<lfloor>t\<rfloor> else \<lfloor>t\<rfloor> + 1)"

text \<open>\<open>quantum x\<close> is the spacing of the grid at \<open>x\<close>.\<close>

definition quantum :: "rat \<Rightarrow> rat" where
  "quantum x = 2 powi (max (ilog 2 x - 52) (- 1074))"

definition round_to :: "rat \<Rightarrow> rat \<Rightarrow> rat" where
  "round_to q x = of_int (round_half_even (x / q)) * q"

definition round64 :: "rat \<Rightarrow> rat" where
  "round64 x = (if x = 0 then 0 else round_to (quantum x) x)"

definition finite_or_inf :: "bool \<Rightarrow> rat \<Rightarrow> float64" where
  "finite_or_inf s r = (if 1024 \<le> ilog 2 r then Inf s else Finite s r)"

definition to_float64 :: "bool \<Rightarrow> rat \<Rightarrow> float64" where
  "to_float64 s x = finite_or_inf s (round64 x)"

definition signed :: "bool \<Rightarrow> rat \<Rightarrow> rat" where
  "signed s m = (if s then - m else m)"

text \<open>The operators \<^verbatim>\<open>/\<close>, \<^verbatim>\<open>*\<close> and \<^verbatim>\<open>-\<close> on \<^verbatim>\<open>float64\<close>.\<close>

fun fdiv :: "float64 \<Rightarrow> float64 \<Rightarrow> float64" where
  "fdiv (Finite s m) (Finite t n) =
     (if n = 0 then (if m = 0 then NaN else Inf (s \<noteq> t)) else to_float64 (s \<noteq> t) (m / n))"
| "fdiv (Finite s m) (Inf t) = Finite (s \<noteq> t) 0"
| "fdiv (Inf s) (Finite t n) = Inf (s \<noteq> t)"
| "fdiv (Inf s) (Inf t) = NaN"
| "fdiv NaN y = NaN"
| "fdiv x NaN = NaN"

fun fmul :: "float64 \<Rightarrow> float64 \<Rightarrow> float64" where
  "fmul (Finite s m) (Finite t n) = to_float64 (s \<noteq> t) (m * n)"
| "fmul (Finite s m) (Inf t) = (if m = 0 then NaN else Inf (s \<noteq> t))"
| "fmul (Inf s) (Finite t n) = (if n = 0 then NaN else Inf (s \<noteq> t))"
| "fmul (Inf s) (Inf t) = Inf (s \<noteq> t)"
| "fmul NaN y = NaN"
| "fmul x NaN = NaN"

fun fsub :: "float64 \<Rightarrow> float64 \<Rightarrow> float64" where
  "fsub (Finite s m) (Finite t n) =
     (if signed s m = signed t n then Finite (s \<and> \<not> t) 0
      else to_float64 (signed s m < signed t n) \<bar>signed s m - signed t n\<bar>)"
| "fsub (Finite s m) (Inf t) = Inf (\<not> t)"
| "fsub (Inf s) (Finite t n) = Inf s"
| "fsub (Inf s) (Inf t) = (if s = t then NaN else Inf s)"
| "fsub NaN y = NaN"
| "fsub x NaN = NaN"

text \<open>The comparisons \<^verbatim>\<open><\<close> and \<^verbatim>\<open><=\<close>; with NaN on either side both are false.\<close>

fun flt :: "float64 \<Rightarrow> float64 \<Rightarrow> bool" where
  "flt (Finite s m) (Finite t n) = (signed s m < signed t n)"
| "flt (Finite s m) (Inf t) = (\<not> t)"
| "flt (Inf s) (Finite t n) = s"
| "flt (Inf s) (Inf t) = (s \<and> \<not> t)"
| "flt NaN y = False"
| "flt x NaN = False"

fun fle :: "float64 \<Rightarrow> float64 \<Rightarrow> bool" where
  "fle (Finite s m) (Finite t n) = (signed s m \<le> signed t n)"
| "fle (Finite s m) (Inf t) = (\<not> t)"
| "fle (Inf s) (Finite t n) = s"
| "fle (Inf s) (Inf t) = (s \<or> \<not> t)"
| "fle NaN y = False"
| "fle x NaN = False"

text \<open>
  \<^verbatim>\<open>math.Floor\<close> and \<^verbatim>\<open>math.Ceil\<close> are exact; a zero result keeps the sign of the
  argument.
\<close>

fun Floor :: "float64 \<Rightarrow> float64" where
  "Floor (Finite s m) =
     Finite (\<lfloor>signed s m\<rfloor> < 0 \<or> (\<lfloor>signed s m\<rfloor> = 0 \<and> s)) (of_int \<bar>\<lfloor>signed s m\<rfloor>\<bar>)"
| "Floor x = x"

fun Ceil :: "float64 \<Rightarrow> float64" where
  "Ceil (Finite s m) =
     Finite (\<lceil>signed s m\<rceil> < 0 \<or> (\<lceil>signed s m\<rceil> = 0 \<and> s)) (of_int \<bar>\<lceil>signed s m\<rceil>\<bar>)"
| "Ceil x = x"

text \<open>
  The conversions \<^verbatim>\<open>float64(n)\<close> and \<^verbatim>\<open>int(f)\<close>, with \<^verbatim>\<open>int\<close> of 64 bits.
  \<^verbatim>\<open>int(f)\<close> drops the fraction. For a value outside \<^verbatim>\<open>int\<close>, an infinity or NaN the
  conversion succeeds and its result depends on the implementation: the model takes it
  from \<open>target\<close>, a parameter that stands for the platform.
\<close>

definition float64_of_int :: "int \<Rightarrow> float64" where
  "float64_of_int n = to_float64 (n < 0) (of_int \<bar>n\<bar>)"

fun int_of_float64 :: "(float64 \<Rightarrow> int) \<Rightarrow> float64 \<Rightarrow> int" where
  "int_of_float64 target (Finite s m) =
     (if s then (if \<lfloor>m\<rfloor> \<le> 2 ^ 63 then - \<lfloor>m\<rfloor> else target (Finite s m))
      else (if \<lfloor>m\<rfloor> < 2 ^ 63 then \<lfloor>m\<rfloor> else target (Finite s m)))"
| "int_of_float64 target x = target x"

section \<open>Package strconv\<close>

definition is_digit :: "char \<Rightarrow> bool" where
  "is_digit c = (48 \<le> (of_char c :: int) \<and> (of_char c :: int) \<le> 57)"

definition digit_val :: "char \<Rightarrow> int" where
  "digit_val c = of_char c - 48"

definition digit_char :: "nat \<Rightarrow> char" where
  "digit_char n = char_of (48 + n)"

fun digits_val :: "int \<Rightarrow> string \<Rightarrow> int" where
  "digits_val acc [] = acc"
| "digits_val acc (c # cs) = digits_val (acc * 10 + digit_val c) cs"

text \<open>
  \<^verbatim>\<open>strconv.Atoi\<close>: an optional sign and one or more decimal digits, of a value that
  fits \<^verbatim>\<open>int\<close> (64 bits). Of the \<^verbatim>\<open>*NumError\<close> the model keeps the function and the
  input, not whether the error is \<^verbatim>\<open>ErrSyntax\<close> or \<^verbatim>\<open>ErrRange\<close>.
\<close>

definition Atoi_digits :: "string \<Rightarrow> bool \<Rightarrow> string \<Rightarrow> error + int" where
  "Atoi_digits s neg ds =
     (if ds \<noteq> [] \<and> list_all is_digit ds \<and>
         (if neg then digits_val 0 ds \<le> 2 ^ 63 else digits_val 0 ds < 2 ^ 63)
      then Inr (if neg then - digits_val 0 ds else digits_val 0 ds)
      else Inl (NumError ''Atoi'' s))"

definition Atoi :: "string \<Rightarrow> error + int" where
  "Atoi s =
     (if s \<noteq> [] \<and> (hd s = CHR ''-'' \<or> hd s = CHR ''+'')
      then Atoi_digits s (hd s = CHR ''-'') (tl s)
      else Atoi_digits s False s)"

text \<open>The decimal digits of a number, the most significant first.\<close>

function decimal :: "int \<Rightarrow> nat list" where
  "decimal n = (if n < 10 then [nat n] else decimal (n div 10) @ [nat (n mod 10)])"
  by pat_completeness auto
termination
  by (relation "measure nat") auto

declare decimal.simps [simp del]

definition Itoa :: "int \<Rightarrow> string" where
  "Itoa i =
     (if i < 0 then ''-'' @ map digit_char (decimal (- i)) else map digit_char (decimal i))"

text \<open>
  \<^verbatim>\<open>strconv.ParseFloat(s, 64)\<close>. The text is an infinity or NaN by name, or a decimal
  or hexadecimal floating-point number in Go's syntax: a sign, digits with at most one
  point, and an exponent (\<^verbatim>\<open>e\<close> for decimal, optional; \<^verbatim>\<open>p\<close> for hexadecimal,
  required). Underscores are skipped while reading and checked afterwards. The loops
  below follow \<^verbatim>\<open>readFloat\<close>; they keep the exact value of the digits where the
  library keeps the first 19 digits and a flag, since the result is the exact value
  correctly rounded either way.
\<close>

definition special :: "string \<Rightarrow> float64 option" where
  "special s =
     (let l = map lower s in
      if l = ''inf'' \<or> l = ''+inf'' \<or> l = ''infinity'' \<or> l = ''+infinity'' then Some (Inf False)
      else if l = ''-inf'' \<or> l = ''-infinity'' then Some (Inf True)
      else if l = ''nan'' then Some NaN
      else None)"

definition is_hex_letter :: "char \<Rightarrow> bool" where
  "is_hex_letter c = (97 \<le> (of_char (lower c) :: int) \<and> (of_char (lower c) :: int) \<le> 102)"

text \<open>
  The mantissa loop returns the unread text, whether it saw a point, a digit and an
  underscore, the value of all digits read, and the number of digits after the point.
\<close>

fun mantissa_loop ::
  "int \<Rightarrow> string \<Rightarrow> bool \<Rightarrow> bool \<Rightarrow> bool \<Rightarrow> int \<Rightarrow> int \<Rightarrow>
   string \<times> bool \<times> bool \<times> bool \<times> int \<times> int" where
  "mantissa_loop base [] sawdot sawdigits underscores mantissa fd =
     ([], sawdot, sawdigits, underscores, mantissa, fd)"
| "mantissa_loop base (c # cs) sawdot sawdigits underscores mantissa fd =
     (if c = CHR ''_'' then mantissa_loop base cs sawdot sawdigits True mantissa fd
      else if c = CHR ''.'' then
        (if sawdot then (c # cs, sawdot, sawdigits, underscores, mantissa, fd)
         else mantissa_loop base cs True sawdigits underscores mantissa fd)
      else if is_digit c then
        mantissa_loop base cs sawdot True underscores (mantissa * base + digit_val c)
          (if sawdot then fd + 1 else fd)
      else if base = 16 \<and> is_hex_letter c then
        mantissa_loop base cs sawdot True underscores
          (mantissa * 16 + (of_char (lower c) - 97 + 10)) (if sawdot then fd + 1 else fd)
      else (c # cs, sawdot, sawdigits, underscores, mantissa, fd))"

fun exp_loop :: "string \<Rightarrow> bool \<Rightarrow> int \<Rightarrow> string \<times> bool \<times> int" where
  "exp_loop [] underscores e = ([], underscores, e)"
| "exp_loop (c # cs) underscores e =
     (if c = CHR ''_'' then exp_loop cs True e
      else if is_digit c then exp_loop cs underscores (if e < 10000 then e * 10 + digit_val c else e)
      else (c # cs, underscores, e))"

text \<open>
  \<^verbatim>\<open>underscoreOK\<close>: an underscore stands between two digits, or between a base prefix
  and a digit. \<open>saw\<close> is the kind of the character before: a digit, an underscore,
  or anything else.
\<close>

datatype saw = SawDigit | SawUnderscore | SawOther

fun underscore_loop :: "bool \<Rightarrow> saw \<Rightarrow> string \<Rightarrow> bool" where
  "underscore_loop hex saw [] = (saw \<noteq> SawUnderscore)"
| "underscore_loop hex saw (c # cs) =
     (if is_digit c \<or> (hex \<and> is_hex_letter c) then underscore_loop hex SawDigit cs
      else if c = CHR ''_'' then
        (if saw \<noteq> SawDigit then False else underscore_loop hex SawUnderscore cs)
      else if saw = SawUnderscore then False
      else underscore_loop hex SawOther cs)"

definition underscoreOK :: "string \<Rightarrow> bool" where
  "underscoreOK s0 =
     (let s = (if s0 \<noteq> [] \<and> (hd s0 = CHR ''-'' \<or> hd s0 = CHR ''+'') then tl s0 else s0)
      in if 2 \<le> length s \<and> s ! 0 = CHR ''0'' \<and>
            (lower (s ! 1) = CHR ''b'' \<or> lower (s ! 1) = CHR ''o'' \<or> lower (s ! 1) = CHR ''x'')
         then underscore_loop (lower (s ! 1) = CHR ''x'') SawDigit (drop 2 s)
         else underscore_loop False SawOther s)"

text \<open>
  \<open>readFloat\<close> gives the sign and the exact magnitude of a text that is a number
  from its first to its last character, and \<open>None\<close> otherwise (\<^verbatim>\<open>ParseFloat\<close> reports
  a text with characters left over as a syntax error too).
\<close>

definition readFloat :: "string \<Rightarrow> (bool \<times> rat) option" where
  "readFloat s =
     (if s = [] then None
      else
        let neg = (hd s = CHR ''-'');
            s1 = (if hd s = CHR ''+'' \<or> hd s = CHR ''-'' then tl s else s);
            hex = (2 < length s1 \<and> s1 ! 0 = CHR ''0'' \<and> lower (s1 ! 1) = CHR ''x'');
            s2 = (if hex then drop 2 s1 else s1);
            (s3, sawdot, sawdigits, underscores, mantissa, fd) =
               mantissa_loop (if hex then 16 else 10) s2 False False False 0 0
        in if \<not> sawdigits then None
           else if s3 = [] then
             (if hex then None
              else if underscores \<and> \<not> underscoreOK s then None
              else Some (neg, of_int mantissa * 10 powi (- fd)))
           else if lower (hd s3) = (if hex then CHR ''p'' else CHR ''e'') then
             (let s4 = tl s3;
                  esign = (s4 \<noteq> [] \<and> hd s4 = CHR ''-'');
                  s5 = (if s4 \<noteq> [] \<and> (hd s4 = CHR ''+'' \<or> hd s4 = CHR ''-'') then tl s4 else s4);
                  (s6, underscores', e) = exp_loop s5 underscores 0;
                  ex = (if esign then - e else e)
              in if s5 = [] \<or> \<not> is_digit (hd s5) then None
                 else if s6 \<noteq> [] then None
                 else if underscores' \<and> \<not> underscoreOK s then None
                 else if hex then Some (neg, of_int mantissa * 2 powi (ex - 4 * fd))
                 else Some (neg, of_int mantissa * 10 powi (ex - fd)))
           else None)"

definition ParseFloat :: "string \<Rightarrow> error + float64" where
  "ParseFloat s =
     (case special s of
        Some f \<Rightarrow> Inr f
      | None \<Rightarrow>
          (case readFloat s of
             None \<Rightarrow> Inl (NumError ''ParseFloat'' s)
           | Some (neg, v) \<Rightarrow>
               (case to_float64 neg v of
                  Finite s' m \<Rightarrow> Inr (Finite s' m)
                | _ \<Rightarrow> Inl (NumError ''ParseFloat'' s))))"

text \<open>
  \<^verbatim>\<open>strconv.FormatFloat(f, 'g', 4, 64)\<close>. The value is rounded to at most four
  significant decimal digits (an exact tie to the even digit) and trailing zeros are
  dropped: \<open>ds\<close> are the digits and \<open>dp\<close> the position of the decimal point, so the
  rounded value is \<open>0.ds\<close> times \<open>10 powi dp\<close>; zero has no digits. Format \<^verbatim>\<open>%e\<close> is
  used when the exponent is below \<open>- 4\<close> or not below the precision, \<^verbatim>\<open>%f\<close> otherwise.
\<close>

definition trim :: "nat list \<Rightarrow> nat list" where
  "trim ds = rev (dropWhile (\<lambda>d. d = 0) (rev ds))"

definition trimmed :: "int \<Rightarrow> nat list \<Rightarrow> nat list \<times> int" where
  "trimmed dp ds = (trim ds, dp - 4 + int (length ds))"

definition round_digits :: "int \<Rightarrow> rat \<Rightarrow> nat list \<times> int" where
  "round_digits dp m = trimmed dp (decimal (round_half_even (m / 10 powi (dp - 4))))"

definition round_decimal :: "rat \<Rightarrow> nat list \<times> int" where
  "round_decimal m = (if m = 0 then ([], 0) else round_digits (ilog 10 m + 1) m)"

definition fmtF :: "nat list \<Rightarrow> int \<Rightarrow> nat \<Rightarrow> string" where
  "fmtF ds dp prec =
     (if 0 < dp
      then map digit_char (take (nat dp) ds) @ replicate (nat dp - length ds) CHR ''0''
      else ''0'') @
     (if 0 < prec
      then ''.'' @ map (\<lambda>i. let j = dp + int i
                          in if 0 \<le> j \<and> j < int (length ds) then digit_char (ds ! nat j)
                             else CHR ''0'') [0..<prec]
      else [])"

definition fmt_exp :: "int \<Rightarrow> string" where
  "fmt_exp ex =
     (if ex < 0 then ''-'' else ''+'') @
     (if \<bar>ex\<bar> < 10 then [CHR ''0'', digit_char (nat \<bar>ex\<bar>)]
      else if \<bar>ex\<bar> < 100 then [digit_char (nat (\<bar>ex\<bar> div 10)), digit_char (nat (\<bar>ex\<bar> mod 10))]
      else [digit_char (nat (\<bar>ex\<bar> div 100)), digit_char (nat (\<bar>ex\<bar> div 10 mod 10)),
            digit_char (nat (\<bar>ex\<bar> mod 10))])"

definition fmtE :: "nat list \<Rightarrow> int \<Rightarrow> nat \<Rightarrow> string" where
  "fmtE ds dp prec =
     [if ds \<noteq> [] then digit_char (ds ! 0) else CHR ''0''] @
     (if 0 < prec
      then ''.'' @ map digit_char (take (min (length ds) (prec + 1) - 1) (drop 1 ds)) @
           replicate (prec + 1 - max 1 (min (length ds) (prec + 1))) CHR ''0''
      else []) @
     ''e'' @ fmt_exp (if ds = [] then 0 else dp - 1)"

definition eprec :: "int \<Rightarrow> int \<Rightarrow> int" where
  "eprec nd dp = (if 4 > nd \<and> nd \<ge> dp then nd else 4)"

definition fmtG :: "nat list \<Rightarrow> int \<Rightarrow> string" where
  "fmtG ds dp =
     (if dp - 1 < - 4 \<or> dp - 1 \<ge> eprec (int (length ds)) dp
      then fmtE ds dp (nat (min 4 (int (length ds)) - 1))
      else fmtF ds dp (nat (max ((if 4 > dp then int (length ds) else 4) - dp) 0)))"

fun FormatFloat_g4 :: "float64 \<Rightarrow> string" where
  "FormatFloat_g4 NaN = ''NaN''"
| "FormatFloat_g4 (Inf s) = (if s then ''-Inf'' else ''+Inf'')"
| "FormatFloat_g4 (Finite s m) =
     (if s then ''-'' else '''') @ (case round_decimal m of (ds, dp) \<Rightarrow> fmtG ds dp)"

section \<open>Percent triplets\<close>

text \<open>\<^verbatim>\<open>strings.Split(s, sep)\<close> for a separator of one character, and \<^verbatim>\<open>strings.Contains\<close>.\<close>

fun Split :: "string \<Rightarrow> char \<Rightarrow> string list" where
  "Split [] sep = [[]]"
| "Split (c # cs) sep =
     (if c = sep then [] # Split cs sep
      else (case Split cs sep of [] \<Rightarrow> [[c]] | x # xs \<Rightarrow> (c # x) # xs))"

definition Contains :: "string \<Rightarrow> char \<Rightarrow> bool" where
  "Contains s c = (c \<in> set s)"

text \<open>
  \<^verbatim>\<open>normalizePercentRGB\<close> and \<^verbatim>\<open>NormalizePercentTriplet\<close> have the results
  \<^verbatim>\<open>(string, error)\<close> and \<^verbatim>\<open>([]string, error)\<close>. Their models return \<open>Inr\<close> of both
  results, the error \<open>None\<close> for \<^verbatim>\<open>nil\<close> and the slice \<open>None\<close> for \<^verbatim>\<open>nil\<close>; \<open>Inl\<close> is
  a panic. The last \<^verbatim>\<open>return "", err\<close> of \<^verbatim>\<open>normalizePercentRGB\<close> is reached with the
  error of the parser, or with \<^verbatim>\<open>nil\<close> when the number is in none of the three ranges.
\<close>

definition normalizePercentRGB :: "string \<Rightarrow> error + string \<times> error option" where
  "normalizePercentRGB v =
     (case index (Split v CHR ''%'') 0 of
        Inl e \<Rightarrow> Inl e
      | Inr percent \<Rightarrow>
          if Contains percent CHR ''.'' then
            (case ParseFloat percent of
               Inl err \<Rightarrow> Inr ('''', Some err)
             | Inr percentf \<Rightarrow>
                 if fle (Finite False 0) percentf \<and> fle percentf (Finite False 100)
                 then Inr (FormatFloat_g4 percentf @ ''%'', None)
                 else if flt percentf (Finite False 0) then Inr (''0%'', None)
                 else if flt (Finite False 100) percentf then Inr (''100%'', None)
                 else Inr ('''', None))
          else
            (case Atoi percent of
               Inl err \<Rightarrow> Inr ('''', Some err)
             | Inr percenti \<Rightarrow>
                 if percenti \<ge> 0 \<and> percenti \<le> 100 then Inr (Itoa percenti @ ''%'', None)
                 else if percenti < 0 then Inr (''0%'', None)
                 else if percenti > 100 then Inr (''100%'', None)
                 else Inr ('''', None)))"

text \<open>
  \<^verbatim>\<open>NormalizePercentTriplet\<close> ranges over the whole slice, whatever its length, and
  appends each normalized component to \<^verbatim>\<open>finalTriplet\<close>; at the first error it returns
  \<^verbatim>\<open>nil\<close> and the error.
\<close>

fun NormalizePercentTriplet_loop ::
  "string list \<Rightarrow> string list \<Rightarrow> error + string list option \<times> error option" where
  "NormalizePercentTriplet_loop finalTriplet [] = Inr (Some finalTriplet, None)"
| "NormalizePercentTriplet_loop finalTriplet (v # rgbTriplet) =
     (case normalizePercentRGB v of
        Inl e \<Rightarrow> Inl e
      | Inr (np, err) \<Rightarrow>
          (case err of
             Some e \<Rightarrow> Inr (None, Some e)
           | None \<Rightarrow> NormalizePercentTriplet_loop (finalTriplet @ [np]) rgbTriplet))"

definition NormalizePercentTriplet ::
  "string list \<Rightarrow> error + string list option \<times> error option" where
  "NormalizePercentTriplet rgbTriplet = NormalizePercentTriplet_loop [] rgbTriplet"

text \<open>
  \<^verbatim>\<open>percentToInteger\<close>: the fraction \<^verbatim>\<open>e := num - math.Floor(num)\<close> of
  \<^verbatim>\<open>num = 255 * (num / 100.0)\<close> decides between \<^verbatim>\<open>int(math.Floor(num))\<close> and
  \<^verbatim>\<open>int(math.Ceil(num))\<close>.
\<close>

definition floor_or_ceil :: "(float64 \<Rightarrow> int) \<Rightarrow> float64 \<Rightarrow> int" where
  "floor_or_ceil target num =
     (if flt (fsub num (Floor num)) (Finite False (1 / 2)) then int_of_float64 target (Floor num)
      else int_of_float64 target (Ceil num))"

definition percentToInteger :: "(float64 \<Rightarrow> int) \<Rightarrow> string \<Rightarrow> error + int" where
  "percentToInteger target percent =
     (case index (Split percent CHR ''%'') 0 of
        Inl e \<Rightarrow> Inl e
      | Inr p \<Rightarrow>
          (case ParseFloat p of
             Inl err \<Rightarrow> Inl err
           | Inr num0 \<Rightarrow>
               Inr (floor_or_ceil target
                      (fmul (Finite False 255) (fdiv num0 (Finite False 100))))))"

fun percentToInteger_loop :: "(float64 \<Rightarrow> int) \<Rightarrow> string list \<Rightarrow> error + int list" where
  "percentToInteger_loop target [] = Inr []"
| "percentToInteger_loop target (n # normalizedTriplet) =
     (case percentToInteger target n of
        Inl err \<Rightarrow> Inl err
      | Inr perI \<Rightarrow>
          (case percentToInteger_loop target normalizedTriplet of
             Inl err \<Rightarrow> Inl err
           | Inr rgbTriplet \<Rightarrow> Inr (perI # rgbTriplet)))"

definition RGBPercentToRGB :: "(float64 \<Rightarrow> int) \<Rightarrow> string list \<Rightarrow> error + int list" where
  "RGBPercentToRGB target rgbPercentTriplet =
     (case NormalizePercentTriplet rgbPercentTriplet of
        Inl e \<Rightarrow> Inl e
      | Inr (normalizedTriplet, err) \<Rightarrow>
          (case err of
             Some e \<Rightarrow> Inl e
           | None \<Rightarrow>
               percentToInteger_loop target
                 (case normalizedTriplet of None \<Rightarrow> [] | Some ns \<Rightarrow> ns)))"

text \<open>\<^verbatim>\<open>RGBToRGBPercent\<close>: the literal of a special value, or the formatted percentage.\<close>

definition specials :: "int \<rightharpoonup> string" where
  "specials =
     map_of [(255, ''100%''), (128, ''50%''), (64, ''25%''), (32, ''12.50%''), (16, ''6.25%''),
             (0, ''0%'')]"

definition RGBToRGBPercent :: "int list \<Rightarrow> error + string list" where
  "RGBToRGBPercent rgbTriplet =
     (case NormalizeIntegerTriplet rgbTriplet of
        Inl e \<Rightarrow> Inl e
      | Inr normalizedTriplet \<Rightarrow>
          Inr (map (\<lambda>v. case specials v of
                           Some name \<Rightarrow> name
                         | None \<Rightarrow>
                             FormatFloat_g4
                               (fmul (fdiv (float64_of_int v) (Finite False 255))
                                  (Finite False 100)) @ ''%'')
                 normalizedTriplet))"

section \<open>The grid and the decimal numerals of the claims\<close>

text \<open>
  \<open>representable x\<close>: the rational \<open>x\<close> is the magnitude of a finite \<^verbatim>\<open>float64\<close>, an
  integer of at most 53 bits times a power of two that is not below the finest spacing.
\<close>

definition representable :: "rat \<Rightarrow> bool" where
  "representable x \<longleftrightarrow> (\<exists>n q. x = of_int n * 2 powi q \<and> 0 \<le> n \<and> n \<le> 2 ^ 53 \<and> - 1074 \<le> q)"

text \<open>
  The percentage of a component as the claim about \<^verbatim>\<open>RGBToRGBPercent\<close> words it, on
  rationals and without the model of \<^verbatim>\<open>float64\<close> and of \<^verbatim>\<open>strconv\<close>.
  \<open>decimal_text n f\<close> is the decimal numeral of \<open>n / 10 ^ f\<close>, for \<open>0 \<le> n\<close>: the digits of
  the whole part, and after a point the \<open>f\<close> digits of the fraction without the zeros at
  their end; the point is left out when no fraction digit remains.
  \<open>four_significant x\<close> is the numeral of \<open>x\<close> rounded to the nearest number of four
  significant digits, for \<open>1 / 10 \<le> x < 100\<close>, where that number has 4, 3 or 2 fraction
  digits.
\<close>

function whole_text :: "int \<Rightarrow> string" where
  "whole_text n =
     (if n < 10 then [char_of (48 + n)] else whole_text (n div 10) @ [char_of (48 + n mod 10)])"
  by pat_completeness auto
termination
  by (relation "measure nat") auto

declare whole_text.simps [simp del]

definition fraction_text :: "nat \<Rightarrow> int \<Rightarrow> string" where
  "fraction_text f n =
     rev (dropWhile (\<lambda>c. c = CHR ''0'')
            (rev (map (\<lambda>i. char_of (48 + n div 10 ^ (f - 1 - i) mod 10)) [0..<f])))"

definition decimal_text :: "int \<Rightarrow> nat \<Rightarrow> string" where
  "decimal_text n f =
     whole_text (n div 10 ^ f) @
     (if fraction_text f n = [] then [] else CHR ''.'' # fraction_text f n)"

definition four_significant :: "rat \<Rightarrow> string" where
  "four_significant x =
     (let f = (if x < 1 then 4 else if x < 10 then 3 else 2)
      in decimal_text (round (x * 10 ^ f)) f)"

section \<open>Slices and bytes\<close>

text \<open>Each of the sixteen characters of the table is a lower-case hex digit of its index.\<close>

text \<open>
  \<^verbatim>\<open>strings.ToLower\<close> beyond ASCII: the Kelvin sign, U+212A, is lowered to \<open>k\<close>, and a
  byte that is no UTF-8 becomes U+FFFD.
\<close>

lemma ToLower_beyond_ASCII:
  "ToLower (''blac'' @ [CHR 0xE2, CHR 0x84, CHR 0xAA]) = ''black''"
  "ToLower [CHR ''A'', CHR 0xFF] = [CHR ''a'', CHR 0xEF, CHR 0xBF, CHR 0xBD]"
  by code_simp+

lemma hex_class_ascii: "hex_class c \<Longrightarrow> (of_char c :: nat) < 128"
  by (auto simp: hex_class_def Let_def)

lemma ToLower_hex_digits: "list_all hex_class s \<Longrightarrow> ToLower s = map lower s"
  by (simp add: ToLower_def list_all_iff hex_class_ascii)

lemma hextable_digits:
  "list_all (\<lambda>n. fromHexChar (hextable ! n) = Some (of_nat n) \<and> hex_class (hextable ! n) \<and>
                 lower (hextable ! n) = hextable ! n) [0..<16]"
  by code_simp

lemma hextable_nibble:
  assumes "n < (16::nat)"
  shows "fromHexChar (hextable ! n) = Some (of_nat n) \<and> hex_class (hextable ! n) \<and>
         lower (hextable ! n) = hextable ! n"
  using hextable_digits assms by (simp add: list_all_iff)

lemma byte_nibbles: "push_bit 4 (drop_bit 4 b) OR (b AND 0x0f) = (b :: byte)"
proof -
  have "(0x0f :: byte) = mask 4" by (simp add: mask_eq_exp_minus_1)
  then show ?thesis
    by (simp add: bit_eq_iff bit_simps) (auto simp: not_le)
qed

lemma unat_hi_nibble: "unat (drop_bit 4 (b :: byte)) < 16"
proof -
  have "unat b < 256" using unsigned_less [of b] by simp
  then have "unat b div 16 < 16" by arith
  then show ?thesis by (simp add: unat_drop_bit_eq drop_bit_eq_div unat_div)
qed

lemma unat_lo_nibble: "unat ((b :: byte) AND 0x0f) < 16"
proof -
  have "unat (b AND 0x0f) \<le> unat (0x0f :: byte)"
    by (rule word_and_le1 [THEN word_le_nat_alt [THEN iffD1]])
  then show ?thesis by simp
qed

text \<open>The hex text of a byte: two lower-case hex digits that decode to the byte.\<close>

lemma EncodeToString_byte:
  "\<exists>p q. EncodeToString [b] = [p, q] \<and> hex_class p \<and> hex_class q \<and> lower p = p \<and> lower q = q \<and>
     DecodeString [p, q] = Inr [b]"
  using hextable_nibble [OF unat_hi_nibble [of b]] hextable_nibble [OF unat_lo_nibble [of b]]
    byte_nibbles [of b]
  by (simp add: EncodeToString_def)

lemma ByteToInt_single: "ByteToInt [b] = uint b"
  by (simp add: ByteToInt_def uint_up_ucast is_up)

lemma low_byte:
  assumes "0 \<le> v" "v \<le> 255"
  shows "take (Suc 0) (drop (Suc 0) (PutUint16 (word_of_int v))) = [word_of_int v]"
proof -
  from assms have "take_bit 16 v = v" by (simp add: take_bit_int_eq_self)
  then have "(ucast (word_of_int v :: 16 word) :: byte) = word_of_int v"
    using assms by (simp add: unsigned_of_int of_nat_nat)
  then show ?thesis by (simp add: PutUint16_def)
qed

lemma normalizeIntegerRGB_range: "0 \<le> normalizeIntegerRGB v \<and> normalizeIntegerRGB v \<le> 255"
  by (simp add: normalizeIntegerRGB_def)

lemma uint_byte_of_component: "0 \<le> v \<Longrightarrow> v \<le> 255 \<Longrightarrow> uint (word_of_int v :: byte) = v"
  by (simp add: uint_word_of_int take_bit_int_eq_self)

lemma HexToRGB_encoded:
  assumes "EncodeToString [a] = [p1, q1]" "hex_class p1" "hex_class q1" "lower p1 = p1" "lower q1 = q1"
    "DecodeString [p1, q1] = Inr [a]"
    and "EncodeToString [b] = [p2, q2]" "hex_class p2" "hex_class q2" "lower p2 = p2" "lower q2 = q2"
    "DecodeString [p2, q2] = Inr [b]"
    and "EncodeToString [c] = [p3, q3]" "hex_class p3" "hex_class q3" "lower p3 = p3" "lower q3 = q3"
    "DecodeString [p3, q3] = Inr [c]"
  shows "HexToRGB (''#'' @ EncodeToString [a] @ EncodeToString [b] @ EncodeToString [c]) =
           Inr [uint a, uint b, uint c]"
  using assms
  by (simp add: HexToRGB_def NormalizeHex_def FindStringSubmatch_def HexColorRegex_match_def
      index_def slice_def ToLower_hex_digits ByteToInt_single del: DecodeString.simps)

lemma NormalizeIntegerTriplet_short:
  "length t < 3 \<Longrightarrow> NormalizeIntegerTriplet t = Inl Panic_IndexOutOfRange"
  by (auto simp: NormalizeIntegerTriplet_def index_def)

lemma NormalizeIntegerTriplet_take:
  "3 \<le> length t \<Longrightarrow>
     NormalizeIntegerTriplet t =
       Inr [normalizeIntegerRGB (t ! 0), normalizeIntegerRGB (t ! 1), normalizeIntegerRGB (t ! 2)]"
  by (auto simp: NormalizeIntegerTriplet_def index_def)

section \<open>The tables after initialization\<close>

lemma forward_tables:
  "HTML4NamesToHex (program_start visit4 visit3) = map_of HTML4_literal"
  "CSS2NamesToHex (program_start visit4 visit3) = map_of HTML4_literal"
  "CSS21NamesToHex (program_start visit4 visit3) = (map_of HTML4_literal)(''orange'' \<mapsto> ''#ffa500'')"
  "CSS3NamesToHex (program_start visit4 visit3) = map_of CSS3_literal"
  by (simp_all add: program_start_def init_def package_vars_def CSS2NamesToHex_def)

lemma NameToHex_html4:
  "NameToHex g n ''html4'' =
     (case HTML4NamesToHex g (ToLower n) of
        None \<Rightarrow> Inl (ErrorsNew (n @ ''has no defined color name in html4''))
      | Some h \<Rightarrow> Inr h)"
  by (simp add: NameToHex_def SupportedSpecifications_def HTML4_def CSS2_def CSS21_def CSS3_def
      split: option.split)

lemma NameToHex_css2:
  "NameToHex g n ''css2'' =
     (case CSS2NamesToHex g (ToLower n) of
        None \<Rightarrow> Inl (ErrorsNew (n @ ''has no defined color name in css2''))
      | Some h \<Rightarrow> Inr h)"
  by (simp add: NameToHex_def SupportedSpecifications_def HTML4_def CSS2_def CSS21_def CSS3_def
      split: option.split)

lemma NameToHex_css21:
  "NameToHex g n ''css21'' =
     (case CSS21NamesToHex g (ToLower n) of
        None \<Rightarrow> Inl (ErrorsNew (n @ ''has no defined color name in css21''))
      | Some h \<Rightarrow> Inr h)"
  by (simp add: NameToHex_def SupportedSpecifications_def HTML4_def CSS2_def CSS21_def CSS3_def
      split: option.split)

lemma NameToHex_css3:
  "NameToHex g n ''css3'' =
     (case CSS3NamesToHex g (ToLower n) of
        None \<Rightarrow> Inl (ErrorsNew (n @ ''has no defined color name in css3''))
      | Some h \<Rightarrow> Inr h)"
  by (simp add: NameToHex_def SupportedSpecifications_def HTML4_def CSS2_def CSS21_def CSS3_def
      split: option.split)

section \<open>Percent strings\<close>

lemma Split_first: "index (Split v c) 0 = Inr (takeWhile (\<lambda>x. x \<noteq> c) v)"
  by (induction v) (auto simp: index_def split: list.splits)

text \<open>\<^verbatim>\<open>normalizePercentRGB\<close> does not panic, and its error is the error of the parser.\<close>

lemma normalizePercentRGB_returns: "\<exists>n err. normalizePercentRGB v = Inr (n, err)"
  by (simp add: normalizePercentRGB_def Split_first split: sum.splits)

lemma normalizePercentRGB_error:
  "normalizePercentRGB v = Inr (n, Some e) \<longleftrightarrow>
     n = '''' \<and>
     (let percent = takeWhile (\<lambda>c. c \<noteq> CHR ''%'') v
      in if CHR ''.'' \<in> set percent then ParseFloat percent = Inl e else Atoi percent = Inl e)"
  by (auto simp: normalizePercentRGB_def Split_first Contains_def Let_def split: sum.splits)

lemma normalizePercentRGB_no_error:
  "(\<exists>n. normalizePercentRGB v = Inr (n, None)) \<longleftrightarrow>
     (let percent = takeWhile (\<lambda>c. c \<noteq> CHR ''%'') v
      in if CHR ''.'' \<in> set percent then \<not> isl (ParseFloat percent) else \<not> isl (Atoi percent))"
  by (auto simp: normalizePercentRGB_def Split_first Contains_def Let_def split: sum.splits)

text \<open>The loop: the components before the first error are appended, the others are not read.\<close>

lemma NormalizePercentTriplet_loop_error:
  "NormalizePercentTriplet_loop acc t = Inr (r, Some e) \<longleftrightarrow>
     r = None \<and>
     (\<exists>us v ws n. t = us @ v # ws \<and> (\<forall>u\<in>set us. \<exists>n. normalizePercentRGB u = Inr (n, None)) \<and>
        normalizePercentRGB v = Inr (n, Some e))"
proof (induction t arbitrary: acc)
  case Nil
  show ?case by simp
next
  case (Cons w t)
  obtain n err where w: "normalizePercentRGB w = Inr (n, err)"
    using normalizePercentRGB_returns by blast
  show ?case
  proof (cases err)
    case (Some e')
    have "\<exists>us v ws n. w # t = us @ v # ws \<and>
        (\<forall>u\<in>set us. \<exists>n. normalizePercentRGB u = Inr (n, None)) \<and>
        normalizePercentRGB v = Inr (n, Some e')"
      using w Some by (intro exI [of _ "[]"] exI [of _ w] exI [of _ t] exI [of _ n]) simp
    moreover have "e = e'"
      if "w # t = us @ v # ws" "\<forall>u\<in>set us. \<exists>n. normalizePercentRGB u = Inr (n, None)"
        "normalizePercentRGB v = Inr (m, Some e)" for us v ws m
      using that w Some by (cases us) auto
    ultimately show ?thesis using w Some by auto
  next
    case None
    have "(\<exists>us v ws m. w # t = us @ v # ws \<and>
        (\<forall>u\<in>set us. \<exists>n. normalizePercentRGB u = Inr (n, None)) \<and>
        normalizePercentRGB v = Inr (m, Some e)) \<longleftrightarrow>
      (\<exists>us v ws m. t = us @ v # ws \<and>
        (\<forall>u\<in>set us. \<exists>n. normalizePercentRGB u = Inr (n, None)) \<and>
        normalizePercentRGB v = Inr (m, Some e))" (is "?L \<longleftrightarrow> ?R")
    proof
      assume ?L
      then obtain us v ws m where a: "w # t = us @ v # ws"
        "\<forall>u\<in>set us. \<exists>n. normalizePercentRGB u = Inr (n, None)"
        "normalizePercentRGB v = Inr (m, Some e)" by blast
      show ?R
      proof (cases us)
        case Nil
        with a w None show ?thesis by simp
      next
        case (Cons u us')
        with a show ?thesis by auto
      qed
    next
      assume ?R
      then obtain us v ws m where a: "t = us @ v # ws"
        "\<forall>u\<in>set us. \<exists>n. normalizePercentRGB u = Inr (n, None)"
        "normalizePercentRGB v = Inr (m, Some e)" by blast
      show ?L
        using a w None
        by (intro exI [of _ "w # us"] exI [of _ v] exI [of _ ws] exI [of _ m]) auto
    qed
    then show ?thesis using w None Cons.IH [of "acc @ [n]"] by simp
  qed
qed

lemma NormalizePercentTriplet_loop_no_error:
  "NormalizePercentTriplet_loop acc t = Inr (r, None) \<longleftrightarrow>
     (\<exists>ns. r = Some (acc @ ns) \<and> list_all2 (\<lambda>v n. normalizePercentRGB v = Inr (n, None)) t ns)"
proof (induction t arbitrary: acc)
  case Nil
  show ?case by auto
next
  case (Cons w t)
  obtain n err where w: "normalizePercentRGB w = Inr (n, err)"
    using normalizePercentRGB_returns by blast
  show ?case
  proof (cases err)
    case (Some e')
    then show ?thesis using w by (auto simp: list_all2_Cons1)
  next
    case None
    then show ?thesis using w Cons.IH [of "acc @ [n]"] by (auto simp: list_all2_Cons1)
  qed
qed

lemma NormalizePercentTriplet_loop_returns:
  "\<exists>r err. NormalizePercentTriplet_loop acc t = Inr (r, err)"
proof (induction t arbitrary: acc)
  case Nil
  show ?case by simp
next
  case (Cons w t)
  obtain n err where w: "normalizePercentRGB w = Inr (n, err)"
    using normalizePercentRGB_returns by blast
  then show ?case using Cons.IH [of "acc @ [n]"] by (cases err) auto
qed

section \<open>Rounding to the grid\<close>

text \<open>The number of digits and the integer logarithm.\<close>

lemma ndigits_nonpos [simp]: "n \<le> 0 \<Longrightarrow> ndigits b n = 0"
  by (simp add: ndigits.simps)

lemma ndigits_bounds:
  assumes "2 \<le> b" "1 \<le> n"
  shows "1 \<le> ndigits b n \<and> b ^ nat (ndigits b n - 1) \<le> n \<and> n < b ^ nat (ndigits b n)"
  using assms
proof (induction b n rule: ndigits.induct)
  case (1 b n)
  have step: "ndigits b n = 1 + ndigits b (n div b)"
    using "1.prems" by (subst ndigits.simps) simp
  show ?case
  proof (cases "n < b")
    case True
    then have "n div b = 0" using "1.prems" by simp
    then show ?thesis using True "1.prems" by (simp add: step)
  next
    case False
    then have "0 < n div b"
      using "1.prems" by (simp add: pos_imp_zdiv_pos_iff)
    then have d1: "1 \<le> n div b" by simp
    define k where "k = ndigits b (n div b)"
    have IH: "1 \<le> k" "b ^ nat (k - 1) \<le> n div b" "n div b < b ^ nat k"
      using "1.IH" "1.prems" d1 by (simp_all add: k_def)
    have bpos: "0 < b" using "1.prems" by simp
    have lo: "b * (n div b) \<le> n"
      using bpos by (metis mult.commute div_mult_mod_eq add_increasing2 pos_mod_sign order_refl)
    have hi: "n < b * (n div b + 1)"
      using bpos
      by (metis add.commute distrib_left div_mult_mod_eq mult.commute mult.right_neutral
          add_less_cancel_left pos_mod_bound)
    have "nat k = Suc (nat (k - 1))" using IH(1) by simp
    then have "b ^ nat k = b * b ^ nat (k - 1)" by simp
    then have "b ^ nat k \<le> b * (n div b)"
      using IH(2) bpos by simp
    moreover have "nat (1 + k) = Suc (nat k)" using IH(1) by simp
    then have "b ^ nat (1 + k) = b * b ^ nat k" by simp
    then have "b * (n div b + 1) \<le> b ^ nat (1 + k)"
      using IH(3) bpos by simp
    ultimately show ?thesis
      using lo hi IH(1) by (simp add: step k_def [symmetric])
  qed
qed

text \<open>The defining property of \<open>ilog\<close>.\<close>

lemma ilog_bounds:
  assumes "2 \<le> b" "0 < x"
  shows "of_int b powi (ilog b x) \<le> x \<and> x < of_int b powi (ilog b x + 1)"
proof (cases "1 \<le> x")
  case True
  define n where "n = \<lfloor>x\<rfloor>"
  have n1: "1 \<le> n" using True by (simp add: n_def)
  define k where "k = ndigits b n"
  have B: "1 \<le> k" "b ^ nat (k - 1) \<le> n" "n < b ^ nat k"
    using ndigits_bounds [OF assms(1) n1] by (simp_all add: k_def)
  have e: "ilog b x = k - 1" using True by (simp add: ilog_def n_def k_def)
  have "(of_int b :: rat) powi (k - 1) = of_int (b ^ nat (k - 1))"
    using B(1) by (simp add: power_int_def)
  also have "\<dots> \<le> of_int n" using B(2) by (simp only: of_int_le_iff)
  also have "\<dots> \<le> x" by (simp add: n_def)
  finally have lo: "of_int b powi (k - 1) \<le> x" .
  have "n + 1 \<le> b ^ nat k" using B(3) by simp
  then have "(of_int (n + 1) :: rat) \<le> of_int (b ^ nat k)" by (simp only: of_int_le_iff)
  moreover have "x < of_int (n + 1)" using floor_correct [of x] by (simp add: n_def)
  moreover have "(of_int b :: rat) powi k = of_int (b ^ nat k)"
    using B(1) by (simp add: power_int_def)
  ultimately have "x < of_int b powi k" by simp
  with lo show ?thesis by (simp add: e)
next
  case False
  then have x1: "x < 1" by simp
  define y where "y = 1 / x"
  have y1: "1 < y" using x1 assms(2) by (simp add: y_def)
  define n where "n = \<lceil>y\<rceil> - 1"
  have n1: "1 \<le> n" using y1 by (simp add: n_def)
  define k where "k = ndigits b n"
  have B: "1 \<le> k" "b ^ nat (k - 1) \<le> n" "n < b ^ nat k"
    using ndigits_bounds [OF assms(1) n1] by (simp_all add: k_def)
  have e: "ilog b x = - k" using False by (simp add: ilog_def n_def k_def y_def)
  have bpos: "(0::rat) < of_int b" using assms(1) by simp
  have "y \<le> of_int (n + 1)" by (simp add: n_def)
  also have "\<dots> \<le> of_int (b ^ nat k)" using B(3) by (simp only: of_int_le_iff)
  also have "\<dots> = of_int b powi k" using B(1) by (simp add: power_int_def)
  finally have "y \<le> of_int b powi k" .
  then have lo: "of_int b powi (- k) \<le> x"
    using assms(2) bpos by (simp add: y_def power_int_minus field_simps)
  have "(of_int b :: rat) powi (k - 1) = of_int (b ^ nat (k - 1))"
    using B(1) by (simp add: power_int_def)
  also have "\<dots> \<le> of_int n" using B(2) by (simp only: of_int_le_iff)
  also have "\<dots> < y" by (simp add: n_def) linarith
  finally have "of_int b powi (k - 1) < y" .
  moreover have P: "(0::rat) < of_int b powi (k - 1)" using bpos by simp
  ultimately have "x < 1 / (of_int b powi (k - 1))"
    using assms(2) by (simp add: y_def field_simps)
  then have "x < of_int b powi (- (k - 1))"
    by (simp only: power_int_minus_divide)
  moreover have "- k + 1 = - (k - 1)" by simp
  ultimately show ?thesis using lo by (simp only: e)
qed

text \<open>Values of the grid are not moved by rounding, and rounding is monotone at them.\<close>

lemma representable_nonneg: "representable x \<Longrightarrow> 0 \<le> x"
  by (auto simp: representable_def)

lemma representable_int: "0 \<le> n \<Longrightarrow> n \<le> 2 ^ 53 \<Longrightarrow> representable (of_int n)"
  unfolding representable_def by (rule exI [of _ n], rule exI [of _ 0]) simp

lemma round_half_even_cases: "round_half_even t = \<lfloor>t\<rfloor> \<or> (round_half_even t = \<lfloor>t\<rfloor> + 1 \<and> of_int \<lfloor>t\<rfloor> < t)"
  by (auto simp: round_half_even_def)

lemma round_half_even_le: "t \<le> of_int k \<Longrightarrow> round_half_even t \<le> k"
  using round_half_even_cases [of t] by (auto simp: floor_le_iff)

lemma round_half_even_ge:
  assumes "of_int k \<le> t"
  shows "k \<le> round_half_even t"
proof -
  have "k \<le> \<lfloor>t\<rfloor>" using assms by (simp add: le_floor_iff)
  then show ?thesis using round_half_even_cases [of t] by auto
qed

lemma round_half_even_of_int [simp]: "round_half_even (of_int k) = k"
  by (simp add: round_half_even_def)

lemma quantum_pos: "0 < quantum x"
  by (simp add: quantum_def)

text \<open>A value of the grid that is at least \<open>2 powi e\<close> is a multiple of the spacing there.\<close>

lemma grid_multiple:
  assumes "representable c" "2 powi e \<le> c"
  shows "\<exists>k. c = of_int k * 2 powi (max (e - 52) (- 1074))"
proof -
  obtain n q where c: "c = of_int n * 2 powi q" and n: "0 \<le> n" "n \<le> 2 ^ 53" and q: "- 1074 \<le> q"
    using assms(1) by (auto simp: representable_def)
  define q' where "q' = max (e - 52) (- 1074)"
  show ?thesis
  proof (cases "q' \<le> q")
    case True
    then have "(2::rat) powi q = 2 powi (q - q') * 2 powi q'"
      by (simp add: power_int_add [symmetric])
    moreover have "(2::rat) powi (q - q') = of_int (2 ^ nat (q - q'))"
      using True by (simp add: power_int_def)
    ultimately have "c = of_int (n * 2 ^ nat (q - q')) * 2 powi q'"
      by (simp add: c)
    then show ?thesis unfolding q'_def by blast
  next
    case False
    then have lt: "q < q'" by simp
    with q have q'e: "q' = e - 52" by (simp add: q'_def)
    have "(2::rat) powi (q' + 52) \<le> of_int n * 2 powi q"
      using assms(2) by (simp add: c q'e)
    then have "(2::rat) powi (q' + 52) / 2 powi q \<le> of_int n"
      by (simp add: field_simps)
    then have "(2::rat) powi (q' + 52 - q) \<le> of_int n"
      by (simp add: power_int_diff)
    moreover have "(2::rat) powi (q' + 52 - q) = of_int (2 ^ nat (q' + 52 - q))"
      using lt by (simp add: power_int_def)
    ultimately have ge: "2 ^ nat (q' + 52 - q) \<le> n"
      by (simp only: of_int_le_iff)
    have "nat (q' + 52 - q) \<le> 53"
    proof (rule ccontr)
      assume "\<not> nat (q' + 52 - q) \<le> 53"
      then have "54 \<le> nat (q' + 52 - q)" by simp
      then have "(2::int) ^ 54 \<le> 2 ^ nat (q' + 52 - q)"
        by (rule power_increasing) simp
      with ge n(2) show False by simp
    qed
    with lt have q1: "q' = q + 1" by simp
    then have "(2::int) ^ 53 \<le> n" using ge by simp
    with n(2) have n53: "n = 2 ^ 53" by simp
    have "(2::rat) powi q' = 2 * 2 powi q"
      by (simp add: q1 power_int_add)
    then have "c = of_int (2 ^ 52) * 2 powi q'"
      by (simp add: c n53)
    then show ?thesis unfolding q'_def by blast
  qed
qed

lemma quotient_below_2_53:
  assumes "0 < x"
  shows "x / quantum x < 2 ^ 53"
proof -
  define e where "e = ilog 2 x"
  define q where "q = max (e - 52) (- 1074)"
  have "x < 2 powi (e + 1)" using ilog_bounds [of 2 x] assms by (simp add: e_def)
  also have "(2::rat) powi (e + 1) \<le> 2 powi (q + 53)"
    by (rule power_int_increasing) (simp_all add: q_def)
  also have "\<dots> = 2 ^ 53 * 2 powi q" by (simp add: power_int_add)
  finally have "x / 2 powi q < 2 ^ 53" by (simp add: field_simps)
  then show ?thesis by (simp add: quantum_def q_def e_def)
qed

lemma round64_representable_id:
  assumes "representable x"
  shows "round64 x = x"
proof (cases "x = 0")
  case True
  then show ?thesis by (simp add: round64_def)
next
  case False
  with representable_nonneg [OF assms] have pos: "0 < x" by simp
  have "2 powi (ilog 2 x) \<le> x" using ilog_bounds [of 2 x] pos by simp
  from grid_multiple [OF assms this] obtain k where "x = of_int k * quantum x"
    by (auto simp: quantum_def)
  then have "x / quantum x = of_int k" using quantum_pos [of x] by (simp add: field_simps)
  then have "round_to (quantum x) x = of_int k * quantum x"
    by (simp add: round_to_def)
  with \<open>x = of_int k * quantum x\<close> False show ?thesis by (simp add: round64_def)
qed

lemma round64_representable:
  assumes "0 \<le> x"
  shows "representable (round64 x)"
proof (cases "x = 0")
  case True
  then show ?thesis using representable_int [of 0] by (simp add: round64_def)
next
  case False
  with assms have pos: "0 < x" by simp
  define n where "n = round_half_even (x / quantum x)"
  have "of_int 0 \<le> x / quantum x" using pos quantum_pos [of x] by simp
  then have n0: "0 \<le> n" unfolding n_def by (rule round_half_even_ge)
  have "x / quantum x \<le> of_int (2 ^ 53)" using quotient_below_2_53 [OF pos] by simp
  then have n1: "n \<le> 2 ^ 53" unfolding n_def by (rule round_half_even_le)
  have "round64 x = of_int n * 2 powi (max (ilog 2 x - 52) (- 1074))"
    using False by (simp add: round64_def round_to_def n_def quantum_def)
  with n0 n1 show ?thesis unfolding representable_def
    by (intro exI [of _ n] exI [of _ "max (ilog 2 x - 52) (- 1074)"]) simp
qed

lemma round64_nonneg: "0 \<le> x \<Longrightarrow> 0 \<le> round64 x"
  using round64_representable representable_nonneg by blast

text \<open>Rounding never passes a value of the grid.\<close>

lemma round64_le:
  assumes "representable c" "0 \<le> x" "x \<le> c"
  shows "round64 x \<le> c"
proof (cases "x = 0")
  case True
  then show ?thesis using representable_nonneg [OF assms(1)] by (simp add: round64_def)
next
  case False
  with assms have pos: "0 < x" by simp
  have "2 powi (ilog 2 x) \<le> x" using ilog_bounds [of 2 x] pos by simp
  with assms(3) have "2 powi (ilog 2 x) \<le> c" by simp
  from grid_multiple [OF assms(1) this] obtain k where c: "c = of_int k * quantum x"
    by (auto simp: quantum_def)
  then have "x / quantum x \<le> of_int k" using assms(3) quantum_pos [of x] by (simp add: field_simps)
  then have "round_half_even (x / quantum x) \<le> k" by (rule round_half_even_le)
  then have "of_int (round_half_even (x / quantum x)) * quantum x \<le> of_int k * quantum x"
    using quantum_pos [of x] by simp
  then show ?thesis using False by (simp add: round64_def round_to_def c)
qed

lemma ilog_2_zero [simp]: "ilog 2 0 = 0"
  by (simp add: ilog_def)

lemma ilog_below_1024:
  assumes "0 \<le> x" "x < 2 ^ 1024"
  shows "ilog 2 x < 1024"
proof (cases "x = 0")
  case True
  then show ?thesis by simp
next
  case False
  with assms have "0 < x" by simp
  then have "2 powi (ilog 2 x) \<le> x" using ilog_bounds [of 2 x] by simp
  with assms(2) have "(2::rat) powi (ilog 2 x) < 2 powi 1024" by simp
  then show ?thesis using power_int_le_imp_less_exp [of 2 "ilog 2 x" 1024] by simp
qed

lemma finite_or_inf_small:
  assumes "0 \<le> r" "r < 2 ^ 1024"
  shows "finite_or_inf s r = Finite s r"
  using ilog_below_1024 [OF assms] by (simp add: finite_or_inf_def)

lemma to_float64_le:
  assumes "representable c" "c < 2 ^ 1024" "0 \<le> x" "x \<le> c"
  shows "to_float64 s x = Finite s (round64 x)"
proof -
  have "round64 x \<le> c" using assms by (intro round64_le)
  with assms(2) have "round64 x < 2 ^ 1024" by simp
  with round64_nonneg [OF assms(3)] show ?thesis
    by (simp add: to_float64_def finite_or_inf_small)
qed

lemma representable_numeral_small [simp]:
  "representable 1" "representable 100" "representable 255"
  using representable_int [of 1] representable_int [of 100] representable_int [of 255]
  by simp_all

text \<open>The error of rounding, and rounding near an integer.\<close>

lemma ilog_unique:
  assumes "2 \<le> b" "of_int b powi e \<le> x" "x < of_int b powi (e + 1)"
  shows "ilog b x = e"
proof -
  have b1: "(1::rat) < of_int b" using assms(1) by simp
  have "(0::rat) < of_int b powi e" using b1 by simp
  with assms(2) have pos: "0 < x" by simp
  define k where "k = ilog b x"
  have B: "of_int b powi k \<le> x" "x < of_int b powi (k + 1)"
    using ilog_bounds [OF assms(1) pos] by (simp_all add: k_def)
  have "(of_int b :: rat) powi e < of_int b powi (k + 1)" using assms(2) B(2) by simp
  then have "e < k + 1" using b1 power_int_le_imp_less_exp [of "of_int b" e "k + 1"]
    by (metis b1 linorder_not_less power_int_increasing less_imp_le)
  moreover have "(of_int b :: rat) powi k < of_int b powi (e + 1)" using assms(3) B(1) by simp
  then have "k < e + 1"
    by (metis b1 linorder_not_less power_int_increasing less_imp_le)
  ultimately show ?thesis by (simp add: k_def)
qed

lemma round_half_even_error: "\<bar>of_int (round_half_even t) - t\<bar> \<le> 1 / 2"
proof -
  have "of_int \<lfloor>t\<rfloor> \<le> t" "t < of_int \<lfloor>t\<rfloor> + 1" by linarith+
  then show ?thesis by (auto simp: round_half_even_def abs_le_iff)
qed

lemma round_half_even_near:
  assumes "\<bar>t - of_int m\<bar> < 1 / 2"
  shows "round_half_even t = m"
proof -
  have "\<bar>of_int (round_half_even t) - t\<bar> \<le> 1 / 2" by (rule round_half_even_error)
  with assms have "\<bar>(of_int (round_half_even t) :: rat) - of_int m\<bar> < 1" by linarith
  then have "\<bar>round_half_even t - m\<bar> < 1"
    by (metis of_int_abs of_int_diff of_int_less_iff of_int_1)
  then show ?thesis by simp
qed

lemma round_near:
  assumes "\<bar>t - of_int m\<bar> < 1 / 2"
  shows "round (t :: rat) = m"
proof (rule round_unique)
  show "t - 1 / 2 < of_int m" using assms by linarith
  show "of_int m \<le> t + 1 / 2" using assms by linarith
qed

lemma round64_error:
  assumes "0 < x" "x < 2 powi k" "- 1021 \<le> k"
  shows "\<bar>round64 x - x\<bar> \<le> 2 powi (k - 54)"
proof -
  define e where "e = ilog 2 x"
  have "2 powi e \<le> x" using ilog_bounds [of 2 x] assms(1) by (simp add: e_def)
  with assms(2) have "(2::rat) powi e < 2 powi k" by simp
  then have ek: "e < k"
    by (metis linorder_not_less power_int_increasing less_imp_le one_less_numeral_iff
        semiring_norm(76))
  define q where "q = quantum x"
  have q: "q = 2 powi (max (e - 52) (- 1074))" by (simp add: q_def quantum_def e_def)
  have qpos: "0 < q" by (simp add: q)
  have "max (e - 52) (- 1074) \<le> k - 53" using ek assms(3) by simp
  then have "q \<le> 2 powi (k - 53)" unfolding q by (intro power_int_increasing) simp_all
  also have "\<dots> = 2 * 2 powi (k - 54)"
    by (simp add: power_int_diff)
  finally have qle: "q / 2 \<le> 2 powi (k - 54)" by simp
  have "round64 x - x = (of_int (round_half_even (x / q)) - x / q) * q"
    using assms(1) qpos by (simp add: round64_def round_to_def q_def [symmetric] field_simps)
  then have "\<bar>round64 x - x\<bar> = \<bar>of_int (round_half_even (x / q)) - x / q\<bar> * q"
    using qpos by (simp add: abs_mult)
  also have "\<dots> \<le> 1 / 2 * q"
    using round_half_even_error [of "x / q"] qpos by (intro mult_right_mono) simp_all
  finally show ?thesis using qle by simp
qed

section \<open>The percentage of a component\<close>

text \<open>
  For a component \<open>v\<close> of 1..254 the value \<^verbatim>\<open>(float64(v) / 255.0) * 100\<close> is within
  \<open>1 / 2 ^ 46\<close> of \<open>v / 255 * 100\<close>. That number is \<open>20 * v / 51\<close>: scaled by a power
  of ten it is never halfway between two integers, and stays at a distance of \<open>1 / 102\<close>
  from the halves, so the value of the program rounds to the same four digits.
\<close>

lemma float64_of_small_int:
  assumes "0 \<le> v" "v \<le> 255"
  shows "float64_of_int v = Finite False (of_int v)"
proof -
  have r: "representable (of_int v)" using assms by (intro representable_int) simp_all
  have "(of_int v :: rat) \<le> 255" using assms(2) by simp
  then have "(of_int v :: rat) < 2 ^ 1024" by simp
  then have "to_float64 False (of_int v) = Finite False (round64 (of_int v))"
    using assms(1) by (intro to_float64_le [OF r]) simp_all
  then show ?thesis
    using assms by (simp add: float64_of_int_def round64_representable_id [OF r])
qed

lemma percent_value:
  assumes "1 \<le> v" "v \<le> 254"
  shows "\<exists>x2. fmul (fdiv (float64_of_int v) (Finite False 255)) (Finite False 100) = Finite False x2 \<and>
     \<bar>x2 - of_int v / 255 * 100\<bar> \<le> 1 / 2 ^ 46"
proof -
  define y :: rat where "y = of_int v / 255"
  have v: "(1::rat) \<le> of_int v" "(of_int v :: rat) \<le> 254" using assms by simp_all
  have y: "1 / 255 \<le> y" "y < 1" using v by (simp_all add: y_def)
  define x1 where "x1 = round64 y"
  have "to_float64 False y = Finite False x1"
    unfolding x1_def using y by (intro to_float64_le [of 1]) simp_all
  then have d: "fdiv (float64_of_int v) (Finite False 255) = Finite False x1"
    using assms by (simp add: float64_of_small_int y_def)
  have "\<bar>x1 - y\<bar> \<le> 2 powi (0 - 54)"
    unfolding x1_def using y by (intro round64_error) simp_all
  then have e1: "\<bar>x1 - y\<bar> \<le> 1 / 2 ^ 54" by (simp add: power_int_minus_divide)
  have "round64 y \<le> 1" using y by (intro round64_le) simp_all
  moreover have "\<bar>x1 - y\<bar> \<le> 1 / 1000" using e1 by (rule order_trans) simp
  ultimately have x1: "0 < x1" "x1 \<le> 1"
    using y(1) unfolding x1_def by linarith+
  define x2 where "x2 = round64 (x1 * 100)"
  have "to_float64 False (x1 * 100) = Finite False x2"
    unfolding x2_def using x1 by (intro to_float64_le [of 100]) simp_all
  then have m: "fmul (Finite False x1) (Finite False 100) = Finite False x2" by simp
  have "\<bar>x2 - x1 * 100\<bar> \<le> 2 powi (7 - 54)"
    unfolding x2_def using x1 by (intro round64_error) simp_all
  then have e2: "\<bar>x2 - x1 * 100\<bar> \<le> 1 / 2 ^ 47" by (simp add: power_int_minus_divide)
  define a where "a = \<bar>x1 - y\<bar>"
  define b where "b = \<bar>x2 - x1 * 100\<bar>"
  have "x2 - y * 100 = (x2 - x1 * 100) + 100 * (x1 - y)" by simp
  then have "\<bar>x2 - y * 100\<bar> \<le> b + 100 * a"
    unfolding a_def b_def by (metis abs_triangle_ineq abs_mult abs_numeral)
  moreover have "b + 100 * a \<le> 1 / 2 ^ 46"
    using e1 e2 unfolding a_def [symmetric] b_def [symmetric] by simp
  ultimately have "\<bar>x2 - y * 100\<bar> \<le> 1 / 2 ^ 46" by (rule order_trans)
  with d m show ?thesis by (simp add: y_def)
qed

lemma decimal_four:
  assumes "1000 \<le> m" "m \<le> 9999"
  shows "decimal m = [nat (m div 1000), nat (m div 100 mod 10), nat (m div 10 mod 10), nat (m mod 10)]"
proof -
  have a: "\<not> m < 10" "\<not> m div 10 < 10" "\<not> m div 10 div 10 < 10" "m div 10 div 10 div 10 < 10"
    using assms by simp_all
  have b: "m div 10 div 10 = m div 100" "m div 10 div 10 div 10 = m div 1000"
    by (simp_all add: zdiv_zmult2_eq)
  have "decimal m = decimal (m div 10 div 10 div 10) @
      [nat (m div 10 div 10 mod 10)] @ [nat (m div 10 mod 10)] @ [nat (m mod 10)]"
    using a(1,2,3) by (simp add: decimal.simps [of m] decimal.simps [of "m div 10"]
        decimal.simps [of "m div 10 div 10"])
  also have "decimal (m div 10 div 10 div 10) = [nat (m div 10 div 10 div 10)]"
    using a(4) by (simp add: decimal.simps [of "m div 10 div 10 div 10"])
  finally show ?thesis by (simp add: b)
qed

lemma round_decimal_scaled:
  assumes lo: "10 powi (dp - 1) \<le> x2" and hi: "x2 < 10 powi dp" and f: "int f = 4 - dp"
    and near: "\<bar>x2 * 10 ^ f - of_int m\<bar> < 1 / 2" and m: "1000 \<le> m" "m \<le> 9999"
  shows "round_decimal x2 = (trim (decimal m), dp)"
proof -
  have "(0::rat) < 10 powi (dp - 1)" by simp
  with lo have pos: "0 < x2" by linarith
  have "ilog 10 x2 = dp - 1"
    using lo hi ilog_unique [of 10 "dp - 1" x2] by simp
  then have 1: "round_decimal x2 = round_digits dp x2"
    using pos by (simp add: round_decimal_def)
  have "dp - 4 = - int f" using f by simp
  then have "(10::rat) powi (dp - 4) = 1 / 10 ^ f"
    by (simp only: power_int_minus_divide power_int_of_nat)
  then have "x2 / 10 powi (dp - 4) = x2 * 10 ^ f"
    by simp
  then have "round_half_even (x2 / 10 powi (dp - 4)) = m"
    using near by (simp add: round_half_even_near)
  then have "round_digits dp x2 = trimmed dp (decimal m)"
    by (simp add: round_digits_def)
  also have "\<dots> = (trim (decimal m), dp)"
    by (simp add: trimmed_def decimal_four [OF m])
  finally show ?thesis using 1 by simp
qed

text \<open>The value \<open>P / 51\<close> is never halfway between two integers.\<close>

lemma nearest_of_51:
  "\<bar>of_int P / 51 - (of_int ((2 * P + 51) div 102) :: rat)\<bar> \<le> 25 / 51"
proof -
  define m where "m = (2 * P + 51) div 102"
  have "51 * m - 25 \<le> P \<and> P \<le> 51 * m + 25" unfolding m_def by presburger
  then have "(of_int (51 * m - 25) :: rat) \<le> of_int P" "(of_int P :: rat) \<le> of_int (51 * m + 25)"
    by (simp_all only: of_int_le_iff)
  then show ?thesis unfolding m_def [symmetric] by (simp add: abs_le_iff field_simps)
qed

lemma round_decimal_percent:
  assumes v: "1 \<le> v" "v \<le> 254"
    and x2: "\<bar>x2 - of_int v / 255 * 100\<bar> \<le> 1 / 2 ^ 46"
    and f: "f = (if v < 3 then 4 else if v < 26 then 3 else 2)"
  shows "round_decimal x2 = (trim (decimal (round (of_int v / 255 * 100 * 10 ^ f :: rat))), 4 - int f) \<and>
     1000 \<le> round (of_int v / 255 * 100 * 10 ^ f :: rat) \<and>
     round (of_int v / 255 * 100 * 10 ^ f :: rat) \<le> 9999"
proof -
  define x :: rat where "x = of_int v / 255 * 100"
  define P where "P = 20 * v * 10 ^ f"
  define m where "m = (2 * P + 51) div 102"
  have f3: "f = 2 \<or> f = 3 \<or> f = 4" using f by auto
  have xP: "x * 10 ^ f = of_int P / 51" by (simp add: x_def P_def)
  have n: "\<bar>x * 10 ^ f - of_int m\<bar> \<le> 25 / 51"
    unfolding xP m_def by (rule nearest_of_51)
  then have r: "round (x * 10 ^ f) = m" by (intro round_near) simp
  have "(10::rat) ^ f \<le> 10 ^ 4" using f3 by auto
  then have "\<bar>x2 - x\<bar> * 10 ^ f \<le> 1 / 2 ^ 46 * 10 ^ 4"
    using x2 unfolding x_def [symmetric] by (intro mult_mono) simp_all
  moreover have "\<bar>x2 * 10 ^ f - x * 10 ^ f\<bar> = \<bar>x2 - x\<bar> * 10 ^ f"
    by (simp add: abs_mult left_diff_distrib [symmetric])
  ultimately have "\<bar>x2 * 10 ^ f - x * 10 ^ f\<bar> \<le> 1 / 2 ^ 46 * 10 ^ 4" by simp
  then have "\<bar>x2 * 10 ^ f - x * 10 ^ f\<bar> \<le> 1 / 1000" by simp
  with n have near: "\<bar>x2 * 10 ^ f - of_int m\<bar> < 1 / 2" by linarith
  have "\<bar>x2 - x\<bar> \<le> 1 / 10 ^ 7" using x2 unfolding x_def [symmetric] by (rule order_trans) simp
  then have e: "x - 1 / 10 ^ 7 \<le> x2" "x2 \<le> x + 1 / 10 ^ 7"
    by linarith+
  consider "v < 3" | "3 \<le> v" "v < 26" | "26 \<le> v" by linarith
  then have "round_decimal x2 = (trim (decimal m), 4 - int f) \<and> 1000 \<le> m \<and> m \<le> 9999"
  proof cases
    case 1
    then have f4: "f = 4" using f by simp
    have vr: "(1::rat) \<le> of_int v" "(of_int v :: rat) \<le> 2" using v 1 by simp_all
    have m: "1000 \<le> m" "m \<le> 9999" using v 1 unfolding m_def P_def f4 by simp_all
    have "10 powi (0 - 1) \<le> x2" "x2 < 10 powi 0"
      using e vr by (simp_all add: x_def power_int_minus_divide)
    then show ?thesis
      using round_decimal_scaled [of 0 x2 f m] near m by (simp add: f4)
  next
    case 2
    then have f4: "f = 3" using f by simp
    have vr: "(3::rat) \<le> of_int v" "(of_int v :: rat) \<le> 25" using 2 by simp_all
    have m: "1000 \<le> m" "m \<le> 9999" using 2 unfolding m_def P_def f4 by simp_all
    have "10 powi (1 - 1) \<le> x2" "x2 < 10 powi 1"
      using e vr by (simp_all add: x_def)
    then show ?thesis
      using round_decimal_scaled [of 1 x2 f m] near m by (simp add: f4)
  next
    case 3
    then have f4: "f = 2" using f by simp
    have vr: "(26::rat) \<le> of_int v" "(of_int v :: rat) \<le> 254" using 3 v by simp_all
    have m: "1000 \<le> m" "m \<le> 9999" using 3 v unfolding m_def P_def f4 by simp_all
    have "10 powi (2 - 1) \<le> x2" "x2 < 10 powi 2"
      using e vr by (simp_all add: x_def)
    then show ?thesis
      using round_decimal_scaled [of 2 x2 f m] near m by (simp add: f4)
  qed
  then show ?thesis unfolding r [symmetric] x_def by simp
qed

lemma upt_small:
  "[0..<1] = [0]" "[0..<2] = [0, 1]" "[0..<3] = [0, 1, 2]" "[0..<4] = [0, 1, 2, 3]"
  by code_simp+

lemma digit_char_int: "0 \<le> c \<Longrightarrow> char_of (48 + c :: int) = digit_char (nat c)"
proof -
  assume "0 \<le> c"
  then have "48 + c = int (48 + nat c)" by simp
  then show ?thesis unfolding digit_char_def by (simp only: char_of_nat)
qed

lemma digit_char_is_zero:
  assumes "n < 10"
  shows "digit_char n = CHR ''0'' \<longleftrightarrow> n = 0"
proof -
  have "list_all (\<lambda>n. digit_char n = CHR ''0'' \<longleftrightarrow> n = 0) [0..<10]" by code_simp
  then show ?thesis using assms by (simp add: list_all_iff)
qed


lemma fmtG_four_digits:
  assumes m: "1000 \<le> m" "m \<le> 9999" and f: "f = 2 \<or> f = 3 \<or> f = 4"
  shows "fmtG (trim (decimal m)) (4 - int f) = decimal_text m f"
proof -
  define a where "a = m div 1000"
  define b where "b = m div 100 mod 10"
  define c where "c = m div 10 mod 10"
  define d where "d = m mod 10"
  note defs = a_def b_def c_def d_def
  have digs: "decimal m = [nat a, nat b, nat c, nat d]"
    using decimal_four [OF m] by (simp add: defs)
  have rng: "1 \<le> a" "a \<le> 9" "0 \<le> b" "b \<le> 9" "0 \<le> c" "c \<le> 9" "0 \<le> d" "d \<le> 9"
    using m by (simp_all add: defs)
  have ch: "char_of (48 + a) = digit_char (nat a)" "char_of (48 + b) = digit_char (nat b)"
    "char_of (48 + c) = digit_char (nat c)" "char_of (48 + d) = digit_char (nat d)"
    using rng by (simp_all add: digit_char_int)
  have z: "digit_char (nat a) \<noteq> CHR ''0''" "digit_char (nat b) = CHR ''0'' \<longleftrightarrow> b = 0"
    "digit_char (nat c) = CHR ''0'' \<longleftrightarrow> c = 0" "digit_char (nat d) = CHR ''0'' \<longleftrightarrow> d = 0"
    using rng by (simp_all add: digit_char_is_zero)
  have "digit_char 0 = CHR ''0''" by code_simp
  note z = z this
  have nz: "nat a \<noteq> 0" "nat b = 0 \<longleftrightarrow> b = 0" "nat c = 0 \<longleftrightarrow> c = 0" "nat d = 0 \<longleftrightarrow> d = 0"
    using rng by simp_all
  have dv: "m div 100 div 10 = a" "m div 100 mod 10 = b" "m div 1000 mod 10 = a" "m div 10000 = 0"
    "\<not> m div 100 < 10" "m div 1000 < 10"
    using m by (simp_all add: defs zdiv_zmult2_eq)
  have wa: "whole_text a = [digit_char (nat a)]"
    using rng by (simp add: whole_text.simps [of a] ch)
  have w2: "whole_text (m div 100) = [digit_char (nat a), digit_char (nat b)]"
    using dv by (simp add: whole_text.simps [of "m div 100"] wa ch)
  have w3: "whole_text (m div 1000) = [digit_char (nat a)]"
    using wa by (simp add: a_def)
  have "whole_text 0 = ''0''" by code_simp
  then have w4: "whole_text (m div 10000) = ''0''"
    by (simp only: dv(4))
  have fr2: "fraction_text 2 m =
      rev (dropWhile (\<lambda>c. c = CHR ''0'') (rev [digit_char (nat c), digit_char (nat d)]))"
    by (simp add: fraction_text_def upt_small ch defs [symmetric])
  have fr3: "fraction_text 3 m =
      rev (dropWhile (\<lambda>c. c = CHR ''0'') (rev [digit_char (nat b), digit_char (nat c), digit_char (nat d)]))"
    by (simp add: fraction_text_def upt_small ch defs [symmetric])
  have fr4: "fraction_text 4 m =
      rev (dropWhile (\<lambda>c. c = CHR ''0'') (rev [digit_char (nat a), digit_char (nat b), digit_char (nat c), digit_char (nat d)]))"
    using dv(3) by (simp add: fraction_text_def upt_small ch defs [symmetric])
  consider "d \<noteq> 0" | "d = 0" "c \<noteq> 0" | "d = 0" "c = 0" "b \<noteq> 0" | "d = 0" "c = 0" "b = 0"
    by blast
  then show ?thesis
  proof cases
    case 1
    then have t: "trim (decimal m) = [nat a, nat b, nat c, nat d]"
      using rng by (simp add: digs trim_def)
    from f show ?thesis
    proof (elim disjE)
      assume "f = 2"
      then show ?thesis using 1
        by (simp add: t fmtG_def eprec_def fmtF_def decimal_text_def
            w2 fr2 z upt_small)
    next
      assume "f = 3"
      then show ?thesis using 1
        by (simp add: t fmtG_def eprec_def fmtF_def decimal_text_def
            w3 fr3 z upt_small)
    next
      assume "f = 4"
      then show ?thesis using 1
        by (simp add: t fmtG_def eprec_def fmtF_def decimal_text_def
            w4 fr4 z upt_small)
    qed
  next
    case 2
    then have t: "trim (decimal m) = [nat a, nat b, nat c]"
      using rng by (simp add: digs trim_def)
    from f show ?thesis
    proof (elim disjE)
      assume "f = 2"
      then show ?thesis using 2
        by (simp add: t fmtG_def eprec_def fmtF_def decimal_text_def
            w2 fr2 z upt_small)
    next
      assume "f = 3"
      then show ?thesis using 2
        by (simp add: t fmtG_def eprec_def fmtF_def decimal_text_def
            w3 fr3 z upt_small)
    next
      assume "f = 4"
      then show ?thesis using 2
        by (simp add: t fmtG_def eprec_def fmtF_def decimal_text_def
            w4 fr4 z upt_small)
    qed
  next
    case 3
    then have t: "trim (decimal m) = [nat a, nat b]"
      using rng by (simp add: digs trim_def)
    from f show ?thesis
    proof (elim disjE)
      assume "f = 2"
      then show ?thesis using 3
        by (simp add: t fmtG_def eprec_def fmtF_def decimal_text_def
            w2 fr2 z upt_small)
    next
      assume "f = 3"
      then show ?thesis using 3
        by (simp add: t fmtG_def eprec_def fmtF_def decimal_text_def
            w3 fr3 z upt_small)
    next
      assume "f = 4"
      then show ?thesis using 3
        by (simp add: t fmtG_def eprec_def fmtF_def decimal_text_def
            w4 fr4 z upt_small)
    qed
  next
    case 4
    then have t: "trim (decimal m) = [nat a]"
      using rng by (simp add: digs trim_def)
    from f show ?thesis
    proof (elim disjE)
      assume "f = 2"
      then show ?thesis using 4
        by (simp add: t fmtG_def eprec_def fmtF_def decimal_text_def
            w2 fr2 z upt_small)
    next
      assume "f = 3"
      then show ?thesis using 4
        by (simp add: t fmtG_def eprec_def fmtF_def decimal_text_def
            w3 fr3 z upt_small)
    next
      assume "f = 4"
      then show ?thesis using 4
        by (simp add: t fmtG_def eprec_def fmtF_def decimal_text_def
            w4 fr4 z upt_small)
    qed
  qed
qed

lemma FormatFloat_percent:
  assumes v: "1 \<le> v" "v \<le> 254"
  shows "FormatFloat_g4 (fmul (fdiv (float64_of_int v) (Finite False 255)) (Finite False 100)) =
     four_significant (of_int v / 255 * 100)"
proof -
  obtain x2 where val: "fmul (fdiv (float64_of_int v) (Finite False 255)) (Finite False 100) = Finite False x2"
    and err: "\<bar>x2 - of_int v / 255 * 100\<bar> \<le> 1 / 2 ^ 46"
    using percent_value [OF v] by blast
  define f :: nat where "f = (if v < 3 then 4 else if v < 26 then 3 else 2)"
  define m where "m = round (of_int v / 255 * 100 * 10 ^ f :: rat)"
  have rd: "round_decimal x2 = (trim (decimal m), 4 - int f)" and m: "1000 \<le> m" "m \<le> 9999"
    using round_decimal_percent [OF v err f_def] by (simp_all add: m_def)
  have f3: "f = 2 \<or> f = 3 \<or> f = 4" by (simp add: f_def)
  have "(of_int v / 255 * 100 < (1::rat)) = ((of_int (v * 100) :: rat) < of_int 255)" by simp
  also have "\<dots> = (v * 100 < 255)" by (simp only: of_int_less_iff)
  also have "\<dots> = (v < 3)" by arith
  finally have c1: "(of_int v / 255 * 100 < (1::rat)) = (v < 3)" .
  have "(of_int v / 255 * 100 < (10::rat)) = ((of_int (v * 100) :: rat) < of_int 2550)" by simp
  also have "\<dots> = (v * 100 < 2550)" by (simp only: of_int_less_iff)
  also have "\<dots> = (v < 26)" by arith
  finally have c2: "(of_int v / 255 * 100 < (10::rat)) = (v < 26)" .
  have "four_significant (of_int v / 255 * 100) = decimal_text m f"
    unfolding four_significant_def c1 c2 Let_def m_def f_def by simp
  moreover have "FormatFloat_g4 (Finite False x2) = fmtG (trim (decimal m)) (4 - int f)"
    by (simp add: rd)
  ultimately show ?thesis
    using fmtG_four_digits [OF m f3] by (simp only: val)
qed

section \<open>The claims\<close>

text \<open>
  C1 (the code does not do this). The claim: a text that does not match the hex pattern
  makes \<^verbatim>\<open>NormalizeHex\<close>, and \<^verbatim>\<open>HexToRGB\<close> through it, return a typed failure. In the
  code \<^verbatim>\<open>FindStringSubmatch\<close> returns \<^verbatim>\<open>nil\<close> for such a text and \<^verbatim>\<open>NormalizeHex\<close> indexes
  it at 1: the program panics with an index out of range. The theorem evaluates both
  functions at the empty text, a text without \<^verbatim>\<open>#\<close>, one of a wrong length and one with
  a character that is no hex digit.
\<close>

theorem NormalizeHex_panics_on_mismatch:
  "NormalizeHex '''' = Inl Panic_IndexOutOfRange \<and>
   HexToRGB '''' = Inl Panic_IndexOutOfRange \<and>
   NormalizeHex ''ffffff'' = Inl Panic_IndexOutOfRange \<and>
   HexToRGB ''ffffff'' = Inl Panic_IndexOutOfRange \<and>
   NormalizeHex ''#ffff'' = Inl Panic_IndexOutOfRange \<and>
   HexToRGB ''#ffff'' = Inl Panic_IndexOutOfRange \<and>
   NormalizeHex ''#ggg'' = Inl Panic_IndexOutOfRange \<and>
   HexToRGB ''#ggg'' = Inl Panic_IndexOutOfRange"
  by (simp add: HexToRGB_def NormalizeHex_def FindStringSubmatch_def HexColorRegex_match_def
      hex_class_def index_def)

text \<open>
  C2 (the code does not do this). The claim: the reverse tables do not depend on the
  order in which the maps are visited, and \<^verbatim>\<open>#808080\<close> is \<^verbatim>\<open>gray\<close> in html4 and css2 in
  every run. \<^verbatim>\<open>init()\<close> overwrites entries of \<^verbatim>\<open>CSS3HexToNames\<close> only. The html4 table
  holds both \<^verbatim>\<open>gray\<close> and \<^verbatim>\<open>grey\<close>, so the name of \<^verbatim>\<open>#808080\<close> in html4 and css2 is the
  one visited last: \<^verbatim>\<open>grey\<close> when the map is visited in the order of the literal,
  \<^verbatim>\<open>gray\<close> in the opposite order. In css3 the same holds for \<^verbatim>\<open>aqua\<close> and \<^verbatim>\<open>cyan\<close>,
  which are not among the seven entries that \<^verbatim>\<open>init()\<close> fixes.
\<close>

theorem HexToName_depends_on_visit_order:
  "range_of HTML4_literal HTML4_literal \<and> range_of HTML4_literal (rev HTML4_literal) \<and>
   range_of CSS3_literal CSS3_literal \<and> range_of CSS3_literal (rev CSS3_literal) \<and>
   HexToName (program_start HTML4_literal CSS3_literal) ''#808080'' ''html4'' = Inr ''grey'' \<and>
   HexToName (program_start (rev HTML4_literal) CSS3_literal) ''#808080'' ''html4'' = Inr ''gray'' \<and>
   HexToName (program_start HTML4_literal CSS3_literal) ''#808080'' ''css2'' = Inr ''grey'' \<and>
   HexToName (program_start (rev HTML4_literal) CSS3_literal) ''#808080'' ''css2'' = Inr ''gray'' \<and>
   HexToName (program_start HTML4_literal CSS3_literal) ''#00ffff'' ''css3'' = Inr ''cyan'' \<and>
   HexToName (program_start HTML4_literal (rev CSS3_literal)) ''#00ffff'' ''css3'' = Inr ''aqua''"
proof (intro conjI)
  show "range_of HTML4_literal HTML4_literal" "range_of HTML4_literal (rev HTML4_literal)"
    "range_of CSS3_literal CSS3_literal" "range_of CSS3_literal (rev CSS3_literal)"
    by (simp_all add: range_of_def)
  show "HexToName (program_start HTML4_literal CSS3_literal) ''#808080'' ''html4'' = Inr ''grey''"
    by code_simp
  show "HexToName (program_start (rev HTML4_literal) CSS3_literal) ''#808080'' ''html4'' = Inr ''gray''"
    by code_simp
  show "HexToName (program_start HTML4_literal CSS3_literal) ''#808080'' ''css2'' = Inr ''grey''"
    by code_simp
  show "HexToName (program_start (rev HTML4_literal) CSS3_literal) ''#808080'' ''css2'' = Inr ''gray''"
    by code_simp
  show "HexToName (program_start HTML4_literal CSS3_literal) ''#00ffff'' ''css3'' = Inr ''cyan''"
    by code_simp
  show "HexToName (program_start HTML4_literal (rev CSS3_literal)) ''#00ffff'' ''css3'' = Inr ''aqua''"
    by code_simp
qed

text \<open>
  C3 (the code does not do this). The claim: for every name of a table,
  \<^verbatim>\<open>HexToName(NameToHex(name, spec), spec)\<close> is the name or its canonical spelling.
  \<^verbatim>\<open>CSS21HexToNames\<close> is computed by \<^verbatim>\<open>reverseMap(CSS21NamesToHex)\<close> when the package
  variables are initialized, before \<^verbatim>\<open>init()\<close> fills \<^verbatim>\<open>CSS21NamesToHex\<close>: it is empty in
  every run, and \<^verbatim>\<open>HexToName\<close> finds no name in css21. The theorem evaluates the round
  trip of \<^verbatim>\<open>white\<close> in css21.
\<close>

theorem css21_round_trip_fails:
  "CSS21HexToNames (program_start visit4 visit3) = Map.empty \<and>
   NameToHex (program_start visit4 visit3) ''white'' ''css21'' = Inr ''#ffffff'' \<and>
   HexToName (program_start visit4 visit3) ''#ffffff'' ''css21'' =
     Inl (ErrorsNew ''#ffffffhas no defined color name in css21'')"
proof (intro conjI)
  show "CSS21HexToNames (program_start visit4 visit3) = Map.empty"
    by (simp add: program_start_def init_def package_vars_def reverseMap_def)
  show "NameToHex (program_start visit4 visit3) ''white'' ''css21'' = Inr ''#ffffff''"
    by (simp add: NameToHex_css21 forward_tables HTML4_literal_def ToLower_def lower_def)
  show "HexToName (program_start visit4 visit3) ''#ffffff'' ''css21'' =
     Inl (ErrorsNew ''#ffffffhas no defined color name in css21'')"
    by (simp add: HexToName_def program_start_def init_def package_vars_def
        SupportedSpecifications_def HTML4_def CSS2_def CSS21_def CSS3_def NormalizeHex_def
        FindStringSubmatch_def HexColorRegex_match_def hex_class_def index_def ToLower_def
        lower_def reverseMap_def)
qed

text \<open>
  C4 (corrected). The claim: \<^verbatim>\<open>NormalizePercentTriplet\<close> fails exactly when some
  component is not a number followed by \<^verbatim>\<open>%\<close>, so a component without the \<^verbatim>\<open>%\<close> fails.
  The code splits each component at \<^verbatim>\<open>%\<close> and parses the first piece only: the counterexample
  is a triplet whose first component has no \<^verbatim>\<open>%\<close> and whose last has text after it,
  and which is normalized all the same, with no error.
\<close>

theorem percent_sign_is_not_required:
  "CHR ''%'' \<notin> set ''50'' \<and>
   NormalizePercentTriplet [''50'', ''0%'', ''0%junk''] =
     Inr (Some [''50%'', ''0%'', ''0%''], None)"
  by code_simp

text \<open>
  C4 as amended. A component is rejected when the text before its first \<^verbatim>\<open>%\<close> (the whole
  component when it has none) is rejected by the parser: \<^verbatim>\<open>strconv.ParseFloat\<close> when that
  text contains a point, \<^verbatim>\<open>strconv.Atoi\<close> otherwise. \<^verbatim>\<open>NormalizePercentTriplet\<close> returns
  an error exactly when some component is rejected. The error it returns is the error of
  the parser for the first rejected component, and the slice returned with it is \<^verbatim>\<open>nil\<close>:
  no component normalized before is returned. When no component is rejected the error is
  \<^verbatim>\<open>nil\<close> and the slice holds the normalized string of each component, in order. The
  function never panics.
\<close>

theorem NormalizePercentTriplet_fails_iff:
  "((\<exists>r e. NormalizePercentTriplet t = Inr (r, Some e)) \<longleftrightarrow>
      list_ex (\<lambda>v. let percent = takeWhile (\<lambda>c. c \<noteq> CHR ''%'') v
                   in if CHR ''.'' \<in> set percent then isl (ParseFloat percent)
                      else isl (Atoi percent)) t) \<and>
   (NormalizePercentTriplet t = Inr (r, Some e) \<longleftrightarrow>
      r = None \<and>
      (\<exists>us v ws. t = us @ v # ws \<and>
         \<not> list_ex (\<lambda>u. let percent = takeWhile (\<lambda>c. c \<noteq> CHR ''%'') u
                        in if CHR ''.'' \<in> set percent then isl (ParseFloat percent)
                           else isl (Atoi percent)) us \<and>
         (let percent = takeWhile (\<lambda>c. c \<noteq> CHR ''%'') v
          in if CHR ''.'' \<in> set percent then ParseFloat percent = Inl e
             else Atoi percent = Inl e))) \<and>
   (NormalizePercentTriplet t = Inr (r, None) \<longleftrightarrow>
      (\<exists>ns. r = Some ns \<and>
         list_all2 (\<lambda>v n. normalizePercentRGB v = Inr (n, None)) t ns)) \<and>
   (\<forall>p. NormalizePercentTriplet t \<noteq> Inl p)"
proof -
  define rejected where "rejected = (\<lambda>v. let percent = takeWhile (\<lambda>c. c \<noteq> CHR ''%'') v
     in if CHR ''.'' \<in> set percent then isl (ParseFloat percent) else isl (Atoi percent))"
  define error_of where "error_of = (\<lambda>v e. let percent = takeWhile (\<lambda>c. c \<noteq> CHR ''%'') v
     in if CHR ''.'' \<in> set percent then ParseFloat percent = Inl e else Atoi percent = Inl e)"
  have rejected: "rejected v \<longleftrightarrow> (\<exists>e. error_of v e)" for v
    by (auto simp: rejected_def error_of_def Let_def isl_def)
  have accepted: "(\<exists>n. normalizePercentRGB v = Inr (n, None)) \<longleftrightarrow> \<not> rejected v" for v
    using normalizePercentRGB_no_error [of v] by (simp add: rejected_def Let_def)
  have failed: "(\<exists>n. normalizePercentRGB v = Inr (n, Some e)) \<longleftrightarrow> error_of v e" for v e
    using normalizePercentRGB_error [of v _ e] by (auto simp: error_of_def Let_def)
  have error: "NormalizePercentTriplet t = Inr (r, Some e) \<longleftrightarrow>
      r = None \<and> (\<exists>us v ws. t = us @ v # ws \<and> \<not> list_ex rejected us \<and> error_of v e)" for r e
  proof -
    have "(\<exists>us v ws n. t = us @ v # ws \<and>
          (\<forall>u\<in>set us. \<exists>n. normalizePercentRGB u = Inr (n, None)) \<and>
          normalizePercentRGB v = Inr (n, Some e)) \<longleftrightarrow>
        (\<exists>us v ws. t = us @ v # ws \<and> \<not> list_ex rejected us \<and> error_of v e)"
      unfolding accepted failed [symmetric] list_ex_iff by blast
    then show ?thesis
      by (simp only: NormalizePercentTriplet_def NormalizePercentTriplet_loop_error)
  qed
  have some: "(\<exists>r e. NormalizePercentTriplet t = Inr (r, Some e)) \<longleftrightarrow> list_ex rejected t"
  proof
    assume "\<exists>r e. NormalizePercentTriplet t = Inr (r, Some e)"
    then obtain us v ws e where "t = us @ v # ws" "error_of v e"
      unfolding error by blast
    then show "list_ex rejected t"
      using rejected [of v] by (auto simp: list_ex_iff)
  next
    assume "list_ex rejected t"
    then have "\<exists>v\<in>set t. rejected v" by (simp add: list_ex_iff)
    then obtain us v ws where "t = us @ v # ws" "rejected v" "\<forall>u\<in>set us. \<not> rejected u"
      using split_list_first_prop [of t rejected] by blast
    then show "\<exists>r e. NormalizePercentTriplet t = Inr (r, Some e)"
      unfolding error using rejected [of v] by (auto simp: list_ex_iff)
  qed
  have none: "NormalizePercentTriplet t = Inr (r, None) \<longleftrightarrow>
      (\<exists>ns. r = Some ns \<and>
         list_all2 (\<lambda>v n. normalizePercentRGB v = Inr (n, None)) t ns)"
    by (simp add: NormalizePercentTriplet_def NormalizePercentTriplet_loop_no_error)
  have "\<forall>p. NormalizePercentTriplet t \<noteq> Inl p"
    using NormalizePercentTriplet_loop_returns [of "[]" t]
    by (auto simp: NormalizePercentTriplet_def)
  with some error [of r e] none show ?thesis
    unfolding rejected_def error_of_def by blast
qed

theorem NormalizePercentTriplet_fails_iff_witness:
  "NormalizePercentTriplet [''50'', ''x%'', ''1.5.0%''] = Inr (None, Some (NumError ''Atoi'' ''x'')) \<and>
   NormalizePercentTriplet [''50'', ''7%rest'', ''1.5''] =
     Inr (Some [''50%'', ''7%'', ''1.5%''], None)"
proof
  have "\<not> isl (Atoi ''50'')" "Atoi ''x'' = Inl (NumError ''Atoi'' ''x'')"
    by code_simp+
  then have "\<exists>us v ws. [''50'', ''x%'', ''1.5.0%''] = us @ v # ws \<and>
      \<not> list_ex (\<lambda>u. let percent = takeWhile (\<lambda>c. c \<noteq> CHR ''%'') u
                     in if CHR ''.'' \<in> set percent then isl (ParseFloat percent)
                        else isl (Atoi percent)) us \<and>
      (let percent = takeWhile (\<lambda>c. c \<noteq> CHR ''%'') v
       in if CHR ''.'' \<in> set percent then ParseFloat percent = Inl (NumError ''Atoi'' ''x'')
          else Atoi percent = Inl (NumError ''Atoi'' ''x''))"
    by (intro exI [of _ "[''50'']"] exI [of _ "''x%''"] exI [of _ "[''1.5.0%'']"]) simp
  then show "NormalizePercentTriplet [''50'', ''x%'', ''1.5.0%''] =
      Inr (None, Some (NumError ''Atoi'' ''x''))"
    using NormalizePercentTriplet_fails_iff
      [of "[''50'', ''x%'', ''1.5.0%'']" None "NumError ''Atoi'' ''x''"]
    by blast
  have "normalizePercentRGB ''50'' = Inr (''50%'', None)"
    "normalizePercentRGB ''7%rest'' = Inr (''7%'', None)"
    "normalizePercentRGB ''1.5'' = Inr (''1.5%'', None)"
    by code_simp+
  then have "list_all2 (\<lambda>v n. normalizePercentRGB v = Inr (n, None))
      [''50'', ''7%rest'', ''1.5''] [''50%'', ''7%'', ''1.5%'']"
    by simp
  then show "NormalizePercentTriplet [''50'', ''7%rest'', ''1.5''] =
      Inr (Some [''50%'', ''7%'', ''1.5%''], None)"
    using NormalizePercentTriplet_fails_iff
      [of "[''50'', ''7%rest'', ''1.5'']" "Some [''50%'', ''7%'', ''1.5%'']"]
    by blast
qed

text \<open>
  C6 (corrected). The claim: a component that is none of the special values is formatted
  to four significant digits. \<^verbatim>\<open>strconv.FormatFloat(percentVal, 'g', 4, 64)\<close> rounds to
  four significant digits and then leaves out the zeros at the end: 51 is 20 percent and
  gives \<^verbatim>\<open>20%\<close>, 102 gives \<^verbatim>\<open>40%\<close> and 26, which is 10.196 percent, gives \<^verbatim>\<open>10.2%\<close>,
  texts of one and three significant digits.
\<close>

theorem trailing_zeros_are_dropped:
  "RGBToRGBPercent [51, 102, 26] = Inr [''20%'', ''40%'', ''10.2%'']"
  by code_simp

text \<open>
  C6 as amended. For every triplet of three integers \<^verbatim>\<open>RGBToRGBPercent\<close> succeeds; each
  component is clamped to 0..255 first; a clamped value of 0, 16, 32, 64, 128 or 255 gives
  its literal, and any other value \<open>v\<close> gives the decimal numeral of \<open>v / 255 * 100\<close>
  rounded to the nearest number of four significant digits, written without the zeros at
  the end of its fraction and without the point when no fraction digit is left, and
  followed by \<^verbatim>\<open>%\<close>. The right-hand side is \<open>four_significant\<close> of the exact rational:
  the two roundings of the \<^verbatim>\<open>float64\<close> arithmetic never change a digit. The last
  conjunct is the example of the claim.
\<close>

theorem RGBToRGBPercent_components:
  "RGBToRGBPercent [r, g, b] =
     Inr (map (\<lambda>n. let v = max 0 (min 255 n)
                   in if v = 0 then ''0%''
                      else if v = 16 then ''6.25%''
                      else if v = 32 then ''12.50%''
                      else if v = 64 then ''25%''
                      else if v = 128 then ''50%''
                      else if v = 255 then ''100%''
                      else four_significant (of_int v / 255 * 100) @ ''%'')
            [r, g, b]) \<and>
   RGBToRGBPercent [218, 165, 32] = Inr [''85.49%'', ''64.71%'', ''12.50%'']"
proof
  have component: "(case specials (normalizeIntegerRGB n) of
         Some name \<Rightarrow> name
       | None \<Rightarrow>
           FormatFloat_g4
             (fmul (fdiv (float64_of_int (normalizeIntegerRGB n)) (Finite False 255))
                (Finite False 100)) @ ''%'') =
      (let v = max 0 (min 255 n)
       in if v = 0 then ''0%''
          else if v = 16 then ''6.25%''
          else if v = 32 then ''12.50%''
          else if v = 64 then ''25%''
          else if v = 128 then ''50%''
          else if v = 255 then ''100%''
          else four_significant (of_int v / 255 * 100) @ ''%'')" for n
  proof -
    define v where "v = max 0 (min 255 n)"
    have clamp: "normalizeIntegerRGB n = v"
      by (simp add: normalizeIntegerRGB_def v_def)
    have range: "0 \<le> v" "v \<le> 255" by (simp_all add: v_def)
    show ?thesis
    proof (cases "v = 0 \<or> v = 255")
      case True
      then show ?thesis unfolding clamp v_def [symmetric] Let_def
        by (auto simp: specials_def)
    next
      case False
      with range have "1 \<le> v" "v \<le> 254" by simp_all
      then show ?thesis unfolding clamp v_def [symmetric] Let_def
        by (simp add: specials_def FormatFloat_percent)
    qed
  qed
  have "RGBToRGBPercent [r, g, b] =
     Inr (map (\<lambda>n. case specials (normalizeIntegerRGB n) of
                     Some name \<Rightarrow> name
                   | None \<Rightarrow>
                       FormatFloat_g4
                         (fmul (fdiv (float64_of_int (normalizeIntegerRGB n)) (Finite False 255))
                            (Finite False 100)) @ ''%'')
            [r, g, b])"
    by (simp add: RGBToRGBPercent_def NormalizeIntegerTriplet_def index_def)
  then show "RGBToRGBPercent [r, g, b] =
     Inr (map (\<lambda>n. let v = max 0 (min 255 n)
                   in if v = 0 then ''0%''
                      else if v = 16 then ''6.25%''
                      else if v = 32 then ''12.50%''
                      else if v = 64 then ''25%''
                      else if v = 128 then ''50%''
                      else if v = 255 then ''100%''
                      else four_significant (of_int v / 255 * 100) @ ''%'')
            [r, g, b])"
    by (simp only: component)
  show "RGBToRGBPercent [218, 165, 32] = Inr [''85.49%'', ''64.71%'', ''12.50%'']"
    by code_simp
qed

text \<open>
  C7. For every triplet of three integers, in range or not, \<^verbatim>\<open>RGBToHex\<close> succeeds and
  \<^verbatim>\<open>HexToRGB\<close> of its result succeeds and is the normalized triplet.
\<close>

theorem HexToRGB_RGBToHex:
  "\<exists>h n. RGBToHex [r, g, b] = Inr h \<and> NormalizeIntegerTriplet [r, g, b] = Inr n \<and>
         HexToRGB h = Inr n"
proof -
  define r' where "r' = normalizeIntegerRGB r"
  define g' where "g' = normalizeIntegerRGB g"
  define b' where "b' = normalizeIntegerRGB b"
  note defs = r'_def g'_def b'_def
  have range: "0 \<le> r'" "r' \<le> 255" "0 \<le> g'" "g' \<le> 255" "0 \<le> b'" "b' \<le> 255"
    using normalizeIntegerRGB_range by (simp_all add: defs)
  have norm: "NormalizeIntegerTriplet [r, g, b] = Inr [r', g', b']"
    by (simp add: NormalizeIntegerTriplet_def index_def defs)
  have hex: "RGBToHex [r, g, b] =
      Inr (''#'' @ EncodeToString [word_of_int r'] @ EncodeToString [word_of_int g'] @
           EncodeToString [word_of_int b'])"
    using range by (simp add: RGBToHex_def norm low_byte)
  obtain p1 q1 where e1: "EncodeToString [word_of_int r' :: byte] = [p1, q1]"
     "hex_class p1" "hex_class q1" "lower p1 = p1" "lower q1 = q1"
     "DecodeString [p1, q1] = Inr [word_of_int r']"
    using EncodeToString_byte by blast
  obtain p2 q2 where e2: "EncodeToString [word_of_int g' :: byte] = [p2, q2]"
     "hex_class p2" "hex_class q2" "lower p2 = p2" "lower q2 = q2"
     "DecodeString [p2, q2] = Inr [word_of_int g']"
    using EncodeToString_byte by blast
  obtain p3 q3 where e3: "EncodeToString [word_of_int b' :: byte] = [p3, q3]"
     "hex_class p3" "hex_class q3" "lower p3 = p3" "lower q3 = q3"
     "DecodeString [p3, q3] = Inr [word_of_int b']"
    using EncodeToString_byte by blast
  have "HexToRGB (''#'' @ EncodeToString [word_of_int r'] @ EncodeToString [word_of_int g'] @
           EncodeToString [word_of_int b']) = Inr [r', g', b']"
    using HexToRGB_encoded [OF e1 e2 e3] range by (simp add: uint_byte_of_component)
  with hex norm show ?thesis by simp
qed

text \<open>
  C8. After initialization the css2 table is the html4 table and the css21 table is the
  html4 table with \<^verbatim>\<open>orange\<close> added (html4 has no \<^verbatim>\<open>orange\<close>). So \<^verbatim>\<open>NameToHex\<close> gives for
  every name the same hex value in css2 as in html4, and fails for the same names (the
  message of the error names the specification asked for); \<^verbatim>\<open>orange\<close> is unknown in css2
  and \<^verbatim>\<open>#ffa500\<close> in css21, and \<^verbatim>\<open>white\<close> is \<^verbatim>\<open>#ffffff\<close> in css3. The tables do not depend
  on the order in which the maps are visited.
\<close>

theorem css2_is_html4_and_css21_adds_orange:
  "CSS2NamesToHex (program_start visit4 visit3) = HTML4NamesToHex (program_start visit4 visit3) \<and>
   CSS21NamesToHex (program_start visit4 visit3) =
     (HTML4NamesToHex (program_start visit4 visit3))(''orange'' \<mapsto> ''#ffa500'') \<and>
   HTML4NamesToHex (program_start visit4 visit3) ''orange'' = None \<and>
   (\<forall>n. case NameToHex (program_start visit4 visit3) n ''html4'' of
          Inr h \<Rightarrow> NameToHex (program_start visit4 visit3) n ''css2'' = Inr h
        | Inl e \<Rightarrow> e = ErrorsNew (n @ ''has no defined color name in html4'') \<and>
            NameToHex (program_start visit4 visit3) n ''css2'' =
              Inl (ErrorsNew (n @ ''has no defined color name in css2''))) \<and>
   NameToHex (program_start visit4 visit3) ''orange'' ''css2'' =
     Inl (ErrorsNew ''orangehas no defined color name in css2'') \<and>
   NameToHex (program_start visit4 visit3) ''orange'' ''css21'' = Inr ''#ffa500'' \<and>
   NameToHex (program_start visit4 visit3) ''white'' ''css3'' = Inr ''#ffffff''"
proof (intro conjI allI)
  show "CSS2NamesToHex (program_start visit4 visit3) = HTML4NamesToHex (program_start visit4 visit3)"
    by (simp add: CSS2NamesToHex_def)
  show "CSS21NamesToHex (program_start visit4 visit3) =
     (HTML4NamesToHex (program_start visit4 visit3))(''orange'' \<mapsto> ''#ffa500'')"
    by (simp add: forward_tables)
  show "HTML4NamesToHex (program_start visit4 visit3) ''orange'' = None"
    by (simp add: forward_tables HTML4_literal_def)
  show "NameToHex (program_start visit4 visit3) ''orange'' ''css2'' =
     Inl (ErrorsNew ''orangehas no defined color name in css2'')"
    by (simp add: NameToHex_css2 forward_tables HTML4_literal_def ToLower_def lower_def)
  show "NameToHex (program_start visit4 visit3) ''orange'' ''css21'' = Inr ''#ffa500''"
    by (simp add: NameToHex_css21 forward_tables ToLower_def lower_def)
  show "NameToHex (program_start visit4 visit3) ''white'' ''css3'' = Inr ''#ffffff''"
    by (simp add: NameToHex_css3 forward_tables CSS3_literal_def ToLower_def lower_def)
  fix n
  show "case NameToHex (program_start visit4 visit3) n ''html4'' of
          Inr h \<Rightarrow> NameToHex (program_start visit4 visit3) n ''css2'' = Inr h
        | Inl e \<Rightarrow> e = ErrorsNew (n @ ''has no defined color name in html4'') \<and>
            NameToHex (program_start visit4 visit3) n ''css2'' =
              Inl (ErrorsNew (n @ ''has no defined color name in css2''))"
    by (simp add: NameToHex_html4 NameToHex_css2 CSS2NamesToHex_def split: option.split)
qed

text \<open>
  C9. \<^verbatim>\<open>NormalizeIntegerTriplet\<close> of three integers never fails, and each component of the
  result depends on the component of the same position only: it lies in 0..255, is the
  component itself when that lies in 0..255, is 0 when the component is negative and 255
  when it is above 255.
\<close>

theorem NormalizeIntegerTriplet_clamps:
  "\<exists>r' g' b'. NormalizeIntegerTriplet [r, g, b] = Inr [r', g', b'] \<and>
     list_all2 (\<lambda>n n'. 0 \<le> n' \<and> n' \<le> 255 \<and> (0 \<le> n \<and> n \<le> 255 \<longrightarrow> n' = n) \<and>
                  (n < 0 \<longrightarrow> n' = 0) \<and> (255 < n \<longrightarrow> n' = 255))
       [r, g, b] [r', g', b']"
  by (simp add: NormalizeIntegerTriplet_def index_def normalizeIntegerRGB_def)

theorem NormalizeIntegerTriplet_clamps_witness:
  "NormalizeIntegerTriplet [270, - 20, 128] = Inr [255, 0, 128]"
  using NormalizeIntegerTriplet_clamps [of 270 "- 20" 128] by auto

text \<open>
  C10. The operations on integer triplets read the elements 0, 1 and 2 of their
  argument whatever its length: on a slice of fewer than three elements
  \<^verbatim>\<open>NormalizeIntegerTriplet\<close>, \<^verbatim>\<open>RGBToHex\<close>, \<^verbatim>\<open>RGBToRGBPercent\<close> and \<^verbatim>\<open>RGBToName\<close> panic
  with an index out of range, and on a longer slice they give what they give on its first
  three elements.
\<close>

theorem triplet_operations_read_three_elements:
  "(length t < 3 \<longrightarrow>
      NormalizeIntegerTriplet t = Inl Panic_IndexOutOfRange \<and>
      RGBToHex t = Inl Panic_IndexOutOfRange \<and>
      RGBToRGBPercent t = Inl Panic_IndexOutOfRange \<and>
      RGBToName g t spec = Inl Panic_IndexOutOfRange) \<and>
   (3 \<le> length t \<longrightarrow>
      (\<exists>n. NormalizeIntegerTriplet t = Inr n) \<and>
      NormalizeIntegerTriplet t = NormalizeIntegerTriplet (take 3 t) \<and>
      RGBToHex t = RGBToHex (take 3 t) \<and>
      RGBToRGBPercent t = RGBToRGBPercent (take 3 t) \<and>
      RGBToName g t spec = RGBToName g (take 3 t) spec)"
  by (simp add: NormalizeIntegerTriplet_short NormalizeIntegerTriplet_take RGBToHex_def
      RGBToRGBPercent_def RGBToName_def)

theorem triplet_operations_read_three_elements_witness:
  "NormalizeIntegerTriplet [1, 2] = Inl Panic_IndexOutOfRange \<and>
   RGBToHex [] = Inl Panic_IndexOutOfRange \<and>
   NormalizeIntegerTriplet [1, 2, 3, 4] = NormalizeIntegerTriplet [1, 2, 3] \<and>
   RGBToHex [0, 0, 128, 77] = RGBToHex [0, 0, 128]"
  using triplet_operations_read_three_elements [of "[1, 2]"]
    triplet_operations_read_three_elements [of "[]"]
    triplet_operations_read_three_elements [of "[1, 2, 3, 4]"]
    triplet_operations_read_three_elements [of "[0, 0, 128, 77]"]
  by simp

end
